theory Spec2Isabelle
  imports Main
begin

section \<open>Python values the orchestration code works with\<close>

text \<open>
  The file under verification is \<^verbatim>\<open>src/Extraction/extractor.py\<close>, class
  \<^verbatim>\<open>DatabaseExtractor\<close>. Exceptions are values of type \<open>exn\<close>; the type stands for
  the instances of Python's \<^verbatim>\<open>Exception\<close> class, the ones a handler
  \<^verbatim>\<open>except Exception\<close> catches. \<open>NameError\<close> carries the unbound name and
  \<open>OtherException\<close> the class name of any exception the code never names.
\<close>

datatype exn =
    AttributeError
  | TimeoutError
  | NameError string
  | IndexError
  | OtherException string

text \<open>
  A statement sequence is a function from the state to a result and the state it leaves:
  \<open>Inl e\<close> when exception \<open>e\<close> escapes, \<open>Inr v\<close> when it completes with \<open>v\<close>. The
  state is returned in both cases, since what was written before a raise stays written.
\<close>

type_synonym ('s, 'a) prog = "'s \<Rightarrow> (exn + 'a) \<times> 's"

definition pret :: "'a \<Rightarrow> ('s, 'a) prog" where
  "pret x = (\<lambda>s. (Inr x, s))"

definition praise :: "exn \<Rightarrow> ('s, 'a) prog" where
  "praise e = (\<lambda>s. (Inl e, s))"

definition pbind :: "('s, 'a) prog \<Rightarrow> ('a \<Rightarrow> ('s, 'b) prog) \<Rightarrow> ('s, 'b) prog" where
  "pbind m f = (\<lambda>s. case m s of (Inl e, s') \<Rightarrow> (Inl e, s') | (Inr x, s') \<Rightarrow> f x s')"

definition pseq :: "('s, 'a) prog \<Rightarrow> ('s, 'b) prog \<Rightarrow> ('s, 'b) prog" where
  "pseq m n = pbind m (\<lambda>_. n)"

text \<open>\<^verbatim>\<open>try: m  except E: h\<close>, where \<open>handles\<close> says which exceptions \<^verbatim>\<open>E\<close> matches.\<close>

definition try_except ::
  "('s, 'a) prog \<Rightarrow> (exn \<Rightarrow> bool) \<Rightarrow> (exn \<Rightarrow> ('s, 'a) prog) \<Rightarrow> ('s, 'a) prog" where
  "try_except m handles h =
     (\<lambda>s. case m s of
             (Inl e, s') \<Rightarrow> if handles e then h e s' else (Inl e, s')
           | (Inr x, s') \<Rightarrow> (Inr x, s'))"

section \<open>\<^verbatim>\<open>os.path\<close> on POSIX\<close>

text \<open>
  \<^verbatim>\<open>db_name_for_file\<close> uses \<^verbatim>\<open>os.path.split\<close>, \<^verbatim>\<open>os.path.splitext\<close> and
  \<^verbatim>\<open>os.path.join\<close>. \<open>rfind c p\<close> is \<^verbatim>\<open>p.rfind(c)\<close>: the last index of \<open>c\<close>, or \<open>-1\<close>.
\<close>

fun rfind_from :: "char \<Rightarrow> string \<Rightarrow> int \<Rightarrow> int \<Rightarrow> int" where
  "rfind_from c [] i found = found"
| "rfind_from c (x # xs) i found = rfind_from c xs (i + 1) (if x = c then i else found)"

definition rfind :: "char \<Rightarrow> string \<Rightarrow> int" where
  "rfind c p = rfind_from c p 0 (- 1)"

text \<open>\<^verbatim>\<open>os.path.split(p)[-1]\<close>: everything after the last slash.\<close>

definition split_tail :: "string \<Rightarrow> string" where
  "split_tail p = drop (nat (rfind (CHR ''/'') p + 1)) p"

text \<open>
  \<^verbatim>\<open>os.path.splitext(p)[0]\<close>: the extension starts at the last dot, when that dot comes
  after the last slash and some character between the two is not a dot (leading dots of
  a name are no extension).
\<close>

definition splitext_root :: "string \<Rightarrow> string" where
  "splitext_root p =
     (let sepIndex = rfind (CHR ''/'') p; dotIndex = rfind (CHR ''.'') p
      in if dotIndex > sepIndex \<and>
            list_ex (\<lambda>k. p ! k \<noteq> CHR ''.'') [nat (sepIndex + 1) ..< nat dotIndex]
         then take (nat dotIndex) p else p)"

text \<open>\<^verbatim>\<open>os.path.join(a, b)\<close> for two components.\<close>

definition path_join :: "string \<Rightarrow> string \<Rightarrow> string" where
  "path_join a b =
     (if b \<noteq> [] \<and> hd b = CHR ''/'' then b
      else if a = [] \<or> last a = CHR ''/'' then a @ b
      else a @ ''/'' @ b)"

section \<open>The extractor object, the documents and the outside world\<close>

text \<open>
  A document is the object \<^verbatim>\<open>Document.from_file\<close> returns. The orchestration code
  assigns its \<^verbatim>\<open>models\<close> attribute and further attributes by \<^verbatim>\<open>setattr\<close>;
  everything else in it is opaque (\<open>doc_content\<close>).
\<close>

record 'c document =
  doc_content :: 'c
  doc_models :: "string list"
  doc_attrs :: "string \<rightharpoonup> string"

text \<open>
  The attributes \<^verbatim>\<open>__init__\<close> stores on \<^verbatim>\<open>self\<close>. \<open>comm_rank\<close> and \<open>comm_size\<close>
  are \<^verbatim>\<open>self.rank\<close> and \<^verbatim>\<open>self.size\<close>; they are read only behind a test of
  \<open>use_mpi\<close>. The Weights and Biases project, configuration and run name are passed
  through to \<^verbatim>\<open>wandb.init\<close> and play no part in the control flow.
\<close>

record ('c, 'r) extractor =
  models :: "string list"
  save_root_dir :: string
  cache_dir :: "string option"
  use_mpi :: bool
  comm_rank :: nat
  comm_size :: nat
  use_wandb :: bool
  wandb_save_files :: "string list"
  document_args :: "(string \<times> string) list"
  filter_results :: "('r list \<Rightarrow> exn + 'r list) option"
  is_valid_document :: "('c document \<Rightarrow> exn + bool) option"

text \<open>\<^verbatim>\<open>self.cacher = PlainTextCacher(cache_dir) if cache_dir else None\<close>: an empty
  string is falsy.\<close>

definition cacher :: "('c, 'r) extractor \<Rightarrow> string option" where
  "cacher self = (case cache_dir self of None \<Rightarrow> None
                  | Some d \<Rightarrow> if d = [] then None else Some d)"

definition is_main_thread :: "('c, 'r) extractor \<Rightarrow> bool" where
  "is_main_thread self = (comm_rank self = 0)"

text \<open>
  The external collaborators, as functions the model is parametric in. Each may raise.
  Hydration and the \<^verbatim>\<open>records\<close> property work on the document in place, so on
  success they hand back the document as they leave it; a call that raises is taken to
  leave the document as it found it.
\<close>

record ('c, 'r) world =
  w_from_file :: "string \<Rightarrow> exn + 'c document"
  w_hydrate :: "(string \<rightharpoonup> 'c document) \<Rightarrow> 'c document \<Rightarrow> string \<Rightarrow> exn + 'c document"
  w_records :: "'c document \<Rightarrow> exn + 'r list \<times> 'c document"
  w_listdir :: "string \<Rightarrow> exn + string list"

text \<open>
  What the code does to its surroundings, in order: the log of its calls to the
  collaborators. A call that may raise is logged with the way it ended:
  \<open>HydrateDocument p None\<close> is a hydration that returned and
  \<open>HydrateDocument p (Some e)\<close> one that raised \<open>e\<close>; likewise for reading
  \<^verbatim>\<open>doc.records\<close>; \<open>IsValidDocument r\<close> is a call of the validator that ended in \<open>r\<close>.
\<close>

datatype event =
    Print string
  | FromFile string
  | HydrateDocument string "exn option"
  | SignalAlarm nat
  | ReadRecords "exn option"
  | IsValidDocument "exn + bool"
  | FilterResults
  | DbWrite string
  | CacheDocument string
  | Mkdir string
  | WandbInit
  | WandbSave string
  | WandbLog nat
  | PrintPaper nat nat string
  | PrintIndexCap nat int

text \<open>
  What travels between the ranks. \<open>Assign p\<close> is the dictionary
  \<^verbatim>\<open>{"exit": False, "document_path": p}\<close> and \<open>Exit\<close> is \<^verbatim>\<open>{"exit": True}\<close>, the two
  payloads the primary builds and the only ones sent with the assignment tag;
  \<open>Result_None\<close> is the value \<^verbatim>\<open>extract_paper\<close> returns and \<open>Result_Empty_List\<close> the
  \<^verbatim>\<open>[]\<close> of the worker's handler. A sent message is kept with its destination and tag.
\<close>

datatype assignment = Assign string | Exit

datatype payload = Data assignment | Result_None | Result_Empty_List

definition AWAITING_DATA_TAG :: nat where
  "AWAITING_DATA_TAG = 111"

definition RETURNING_DATA_TAG :: nat where
  "RETURNING_DATA_TAG = 222"

text \<open>
  The state one process works on: the directories and paths of the file system, the
  record stores by name, the cache entries by document path, the pending alarm, whether
  a Weights and Biases run is open, the log, and the messages the process has sent.
\<close>

record ('c, 'r) sys =
  fs_dirs :: "string set"
  fs_paths :: "string set"
  stores :: "string \<rightharpoonup> 'r list"
  cache_entries :: "string \<rightharpoonup> 'c document"
  alarm :: "nat option"
  wandb_run :: bool
  trace :: "event list"
  comm_sent :: "(nat \<times> nat \<times> payload) list"

definition emit :: "event \<Rightarrow> (('c, 'r) sys, unit) prog" where
  "emit ev = (\<lambda>s. (Inr (), s\<lparr>trace := trace s @ [ev]\<rparr>))"

definition plift :: "exn + 'a \<Rightarrow> ('s, 'a) prog" where
  "plift r = (\<lambda>s. (r, s))"

fun pforeach :: "'a list \<Rightarrow> ('a \<Rightarrow> ('s, unit) prog) \<Rightarrow> ('s, unit) prog" where
  "pforeach [] body = pret ()"
| "pforeach (x # xs) body = pseq (body x) (pforeach xs body)"

definition os_path_exists :: "string \<Rightarrow> (('c, 'r) sys, bool) prog" where
  "os_path_exists p = (\<lambda>s. (Inr (p \<in> fs_paths s \<or> p \<in> fs_dirs s), s))"

definition os_path_isdir :: "string \<Rightarrow> (('c, 'r) sys, bool) prog" where
  "os_path_isdir p = (\<lambda>s. (Inr (p \<in> fs_dirs s), s))"

text \<open>\<^verbatim>\<open>os.mkdir\<close> raises \<^verbatim>\<open>FileExistsError\<close> on an existing path; the parent
  directory is taken to exist.\<close>

definition os_mkdir :: "string \<Rightarrow> (('c, 'r) sys, unit) prog" where
  "os_mkdir p =
     (\<lambda>s. if p \<in> fs_paths s \<or> p \<in> fs_dirs s
            then (Inl (OtherException ''FileExistsError''), s\<lparr>trace := trace s @ [Mkdir p]\<rparr>)
            else (Inr (), s\<lparr>fs_dirs := insert p (fs_dirs s),
                             fs_paths := insert p (fs_paths s),
                             trace := trace s @ [Mkdir p]\<rparr>))"

text \<open>\<^verbatim>\<open>CDEDatabase(db_name, coder=JSONCoder()).write(records)\<close>: the store named
  \<open>db_name\<close> exists afterwards and holds \<open>records\<close>.\<close>

definition db_write :: "string \<Rightarrow> 'r list \<Rightarrow> (('c, 'r) sys, unit) prog" where
  "db_write db_name records =
     (\<lambda>s. (Inr (), s\<lparr>stores := (stores s)(db_name \<mapsto> records),
                       fs_paths := insert db_name (fs_paths s),
                       trace := trace s @ [DbWrite db_name]\<rparr>))"

text \<open>\<^verbatim>\<open>self.cacher.hydrate_document(doc, document_path)\<close>. When \<^verbatim>\<open>self.cacher\<close>
  is \<^verbatim>\<open>None\<close> the attribute access itself raises \<^verbatim>\<open>AttributeError\<close>.\<close>

definition hydrate_document ::
  "('c, 'r) world \<Rightarrow> ('c, 'r) extractor \<Rightarrow> 'c document \<Rightarrow> string
     \<Rightarrow> (('c, 'r) sys, 'c document) prog" where
  "hydrate_document w self doc document_path =
     (case cacher self of
        None \<Rightarrow> praise AttributeError
      | Some _ \<Rightarrow>
          (\<lambda>s. let r = w_hydrate w (cache_entries s) doc document_path
                in (r, s\<lparr>trace := trace s @ [HydrateDocument document_path
                                       (case r of Inl e \<Rightarrow> Some e | Inr _ \<Rightarrow> None)]\<rparr>)))"

text \<open>\<^verbatim>\<open>self.cacher.cache_document(doc, document_path, overwrite_cache=True)\<close>.\<close>

definition cache_document ::
  "('c, 'r) extractor \<Rightarrow> 'c document \<Rightarrow> string \<Rightarrow> (('c, 'r) sys, unit) prog" where
  "cache_document self doc document_path =
     (case cacher self of
        None \<Rightarrow> praise AttributeError
      | Some _ \<Rightarrow> (\<lambda>s. (Inr (), s\<lparr>cache_entries := (cache_entries s)(document_path \<mapsto> doc),
                                   trace := trace s @ [CacheDocument document_path]\<rparr>)))"

text \<open>\<^verbatim>\<open>signal.alarm(300)\<close> replaces any alarm still pending; nothing in the file
  ever cancels one.\<close>

definition signal_alarm :: "nat \<Rightarrow> (('c, 'r) sys, unit) prog" where
  "signal_alarm n = (\<lambda>s. (Inr (), s\<lparr>alarm := Some n, trace := trace s @ [SignalAlarm n]\<rparr>))"

text \<open>Reading \<^verbatim>\<open>doc.records\<close>. A timeout that fires shows as \<open>TimeoutError\<close> raised
  from the read.\<close>

definition read_records ::
  "('c, 'r) world \<Rightarrow> 'c document \<Rightarrow> (('c, 'r) sys, 'r list \<times> 'c document) prog" where
  "read_records w doc =
     (\<lambda>s. let r = w_records w doc
           in (r, s\<lparr>trace := trace s @ [ReadRecords (case r of Inl e \<Rightarrow> Some e
                                                   | Inr _ \<Rightarrow> None)]\<rparr>))"

definition from_file :: "('c, 'r) world \<Rightarrow> string \<Rightarrow> (('c, 'r) sys, 'c document) prog" where
  "from_file w document_path =
     (\<lambda>s. (w_from_file w document_path, s\<lparr>trace := trace s @ [FromFile document_path]\<rparr>))"

section \<open>The methods of \<^verbatim>\<open>DatabaseExtractor\<close>\<close>

definition create_wandb_run :: "('c, 'r) extractor \<Rightarrow> (('c, 'r) sys, unit) prog" where
  "create_wandb_run self =
     pseq (emit (Print ''WANDB CONFIG:''))
          (\<lambda>s. (Inr (), s\<lparr>wandb_run := True, trace := trace s @ [WandbInit]\<rparr>))"

definition will_start_extraction :: "('c, 'r) extractor \<Rightarrow> (('c, 'r) sys, unit) prog" where
  "will_start_extraction self =
     pseq (pbind (os_path_isdir (save_root_dir self))
             (\<lambda>isdir. if \<not> isdir then os_mkdir (save_root_dir self) else pret ()))
          (if use_wandb self
           then pseq (pbind (\<lambda>s. (Inr (wandb_run s), s))
                        (\<lambda>run. if \<not> run then create_wandb_run self
                                else emit (Print ''EXISTING RUN'')))
                     (pforeach (wandb_save_files self) (\<lambda>file. emit (WandbSave file)))
           else pret ())"

definition db_name_for_file :: "('c, 'r) extractor \<Rightarrow> string \<Rightarrow> string" where
  "db_name_for_file self filename =
     (let only_filename = split_tail filename;
          no_ext_filename = splitext_root only_filename
      in path_join (save_root_dir self) no_ext_filename)"

definition should_open_file :: "('c, 'r) extractor \<Rightarrow> string \<Rightarrow> (('c, 'r) sys, bool) prog" where
  "should_open_file self filename =
     (let db_name = db_name_for_file self filename
      in pbind (os_path_exists db_name)
           (\<lambda>ex. let should_open = \<not> ex
                  in pseq (if \<not> should_open
                           then emit (Print (''Skipping '' @ filename @ '' as already exists''))
                           else pret ())
                          (pret should_open)))"

definition should_process_document ::
  "('c, 'r) extractor \<Rightarrow> 'c document \<Rightarrow> (('c, 'r) sys, bool) prog" where
  "should_process_document self doc =
     (case is_valid_document self of
        None \<Rightarrow> pret True
      | Some validator \<Rightarrow>
          (let is_valid = validator doc
           in pseq (emit (IsValidDocument is_valid)) (plift is_valid)))"

definition configure_document :: "('c, 'r) extractor \<Rightarrow> 'c document \<Rightarrow> 'c document" where
  "configure_document self doc =
     doc\<lparr>doc_models := models self,
         doc_attrs := fold (\<lambda>(key, v) m. m(key \<mapsto> v)) (document_args self) (doc_attrs doc)\<rparr>"

definition postprocess_records ::
  "('c, 'r) extractor \<Rightarrow> 'r list \<Rightarrow> string \<Rightarrow> (('c, 'r) sys, unit) prog" where
  "postprocess_records self records filename =
     pbind (case filter_results self of
              None \<Rightarrow> pret records
            | Some f \<Rightarrow> if length records \<noteq> 0
                        then pseq (emit FilterResults) (plift (f records))
                        else pret records)
       (\<lambda>records'. db_write (db_name_for_file self filename) records')"

text \<open>
  \<^verbatim>\<open>extract_paper\<close>, lines 217 to 289 of the source, in the three blocks of
  statements that make up its body, each at eight columns of indentation:
  \<^item> \<open>process_if_open\<close>, lines 236 to 260: the \<^verbatim>\<open>if self.should_open_file(...)\<close>
    statement. Inside it, \<open>hydrate_block\<close> is lines 237 and 240 to 245,
    \<^verbatim>\<open>did_use_cache\<close> and the guarded hydration, and \<open>records_block\<close> is lines 247
    to 255, which leave \<^verbatim>\<open>document_records\<close> empty or read from the document.
  \<^item> lines 262 to 264: the elapsed-time print. The two time stamps only feed the printed
    duration, which the model leaves out of the printed line.
  \<^item> line 267, \<^verbatim>\<open>def extract(self, document_dir, num_papers=None):\<close>, whose body at
    twelve columns is a docstring and nothing else: a function local to
    \<^verbatim>\<open>extract_paper\<close>, bound to the local name \<^verbatim>\<open>extract\<close> and never called. It has
    no effect.
  \<^item> \<open>setup_and_dispatch\<close>, lines 283 to 289, at eight columns again and therefore
    statements of \<^verbatim>\<open>extract_paper\<close>: the run-start setup and the choice between the
    two strategies. The arguments \<^verbatim>\<open>document_dir\<close> and \<^verbatim>\<open>num_papers\<close> of either call
    are evaluated before the strategy is entered. Neither name is a parameter or local
    of \<^verbatim>\<open>extract_paper\<close> (those are \<^verbatim>\<open>self\<close>, \<^verbatim>\<open>document_path\<close>,
    \<^verbatim>\<open>doc_start_time\<close>, \<^verbatim>\<open>did_use_cache\<close>, \<^verbatim>\<open>doc\<close>, \<^verbatim>\<open>document_records\<close>,
    \<^verbatim>\<open>doc_end_time\<close>, \<^verbatim>\<open>extract\<close>) nor a global of the module, so reading
    \<^verbatim>\<open>document_dir\<close> raises \<^verbatim>\<open>NameError\<close> in both branches.
\<close>

definition hydrate_block ::
  "('c, 'r) world \<Rightarrow> ('c, 'r) extractor \<Rightarrow> 'c document \<Rightarrow> string
     \<Rightarrow> (('c, 'r) sys, bool \<times> 'c document) prog" where
  "hydrate_block w self doc document_path =
     (if cache_dir self \<noteq> None
      then try_except
             (pbind (hydrate_document w self doc document_path)
                (\<lambda>doc'. pret (True, doc')))
             (\<lambda>e. e = AttributeError)
             (\<lambda>e. pret (False, doc))
      else pret (False, doc))"

definition records_block ::
  "('c, 'r) world \<Rightarrow> ('c, 'r) extractor \<Rightarrow> 'c document \<Rightarrow> string
     \<Rightarrow> (('c, 'r) sys, 'r list \<times> 'c document) prog" where
  "records_block w self doc document_path =
     pbind (should_process_document self doc)
       (\<lambda>valid.
          if valid then
            pseq (signal_alarm 300)
                 (try_except (read_records w doc)
                    (\<lambda>e. e = TimeoutError)
                    (\<lambda>e. pret ([], doc)))
          else
            pseq (emit (Print (''CANCELLED DOCUMENT '' @ document_path)))
                 (pret ([], doc)))"

definition process_if_open ::
  "('c, 'r) world \<Rightarrow> ('c, 'r) extractor \<Rightarrow> string \<Rightarrow> (('c, 'r) sys, unit) prog" where
  "process_if_open w self document_path =
     pbind (should_open_file self document_path)
       (\<lambda>should_open.
          if should_open then
            pbind (from_file w document_path)
              (\<lambda>doc0.
                 let doc1 = configure_document self doc0
                 in pbind (hydrate_block w self doc1 document_path)
                      (\<lambda>(did_use_cache, doc2).
                         pbind (records_block w self doc2 document_path)
                           (\<lambda>(document_records, doc).
                              pseq (postprocess_records self document_records document_path)
                                   (if \<not> did_use_cache \<and> cache_dir self \<noteq> None
                                    then cache_document self doc document_path
                                    else pret ()))))
          else pret ())"

definition setup_and_dispatch :: "('c, 'r) extractor \<Rightarrow> (('c, 'r) sys, unit) prog" where
  "setup_and_dispatch self =
     pseq (if \<not> use_mpi self \<or> is_main_thread self
           then will_start_extraction self else pret ())
          (if \<not> use_mpi self \<or> comm_size self = 1
           then praise (NameError ''document_dir'')
           else praise (NameError ''document_dir''))"

definition extract_paper ::
  "('c, 'r) world \<Rightarrow> ('c, 'r) extractor \<Rightarrow> string \<Rightarrow> (('c, 'r) sys, unit) prog" where
  "extract_paper w self document_path =
     pseq (process_if_open w self document_path)
    (pseq (emit (Print (document_path @ '' took:'')))
          (setup_and_dispatch self))"

text \<open>
  The names a lookup on an instance finds: the attributes \<^verbatim>\<open>__init__\<close> assigns and
  the functions defined in the class body, at four columns. \<^verbatim>\<open>extract\<close> is defined at
  eight columns, inside \<^verbatim>\<open>extract_paper\<close>, and is none of them.
\<close>

definition instance_attributes :: "('c, 'r) extractor \<Rightarrow> string list" where
  "instance_attributes self =
     [''models'', ''save_root_dir'', ''cache_dir'', ''cacher'', ''use_mpi'']
     @ (if use_mpi self then [''comm'', ''rank'', ''size'', ''is_main_thread''] else [])
     @ [''use_wandb'', ''wandb_project'', ''wandb_config'', ''wandb_run_name'',
        ''wandb_save_files'', ''document_args'', ''filter_results'', ''is_valid_document'']"

definition DatabaseExtractor_methods :: "string list" where
  "DatabaseExtractor_methods =
     [''__init__'', ''will_start_extraction'', ''create_wandb_run'', ''should_open_file'',
      ''should_process_document'', ''configure_document'', ''postprocess_records'',
      ''db_name_for_file'', ''extract_paper'', ''_extract_single_threaded'', ''_extract_mpi'',
      ''_send_to_worker'', ''_exit_worker'', ''_start_worker'']"

text \<open>Reading attribute \<open>name\<close> of an extractor: \<^verbatim>\<open>AttributeError\<close> unless it is bound.\<close>

definition getattr :: "('c, 'r) extractor \<Rightarrow> string \<Rightarrow> exn + unit" where
  "getattr self name =
     (if name \<in> set (instance_attributes self) \<or> name \<in> set DatabaseExtractor_methods
      then Inr () else Inl AttributeError)"

section \<open>The single-process strategy\<close>

text \<open>\<^verbatim>\<open>sub in s\<close> for strings.\<close>

fun contains :: "string \<Rightarrow> string \<Rightarrow> bool" where
  "contains sub [] = (sub = [])"
| "contains sub (c # cs) = (take (length sub) (c # cs) = sub \<or> contains sub cs)"

text \<open>
  The comprehension over \<^verbatim>\<open>os.listdir(document_dir)\<close>; \<^verbatim>\<open>filename[0]\<close> raises
  \<^verbatim>\<open>IndexError\<close> on an empty name.
\<close>

definition list_filenames ::
  "('c, 'r) world \<Rightarrow> string \<Rightarrow> (('c, 'r) sys, string list) prog" where
  "list_filenames w document_dir =
     pbind (plift (w_listdir w document_dir))
       (\<lambda>names. if [] \<in> set names then praise IndexError
                 else pret (filter (\<lambda>filename. hd filename \<noteq> CHR ''.''
                                      \<and> \<not> contains ''records.txt'' filename) names))"

text \<open>
  The \<^verbatim>\<open>for index, filename in enumerate(filenames)\<close> loop. \<^verbatim>\<open>self.extract_paper\<close> is
  looked up on the instance when it is called; \<open>proc\<close> is the method found there.
\<close>

fun single_loop ::
  "('c, 'r) extractor \<Rightarrow> (string \<Rightarrow> (('c, 'r) sys, unit) prog) \<Rightarrow> string \<Rightarrow> int option \<Rightarrow> nat
     \<Rightarrow> nat \<Rightarrow> string list \<Rightarrow> (('c, 'r) sys, unit) prog" where
  "single_loop self proc document_dir num_papers n_files index [] = pret ()"
| "single_loop self proc document_dir num_papers n_files index (filename # rest) =
     (if num_papers \<noteq> None \<and> int index > the num_papers then pret ()
      else pseq (emit (PrintPaper (index + 1) n_files filename))
          (pseq (if use_wandb self then emit (WandbLog index) else pret ())
          (pseq (proc (path_join document_dir filename))
                (single_loop self proc document_dir num_papers n_files (index + 1) rest))))"

definition extract_single_threaded ::
  "('c, 'r) world \<Rightarrow> ('c, 'r) extractor \<Rightarrow> (string \<Rightarrow> (('c, 'r) sys, unit) prog)
     \<Rightarrow> string \<Rightarrow> int option \<Rightarrow> (('c, 'r) sys, unit) prog" where
  "extract_single_threaded w self proc document_dir num_papers =
     pbind (list_filenames w document_dir)
       (\<lambda>filenames.
          pseq (single_loop self proc document_dir num_papers (length filenames) 0 filenames)
               (emit (Print ''Extraction as a whole took:'')))"

section \<open>The distributed strategy\<close>

text \<open>
  A process that waits in \<^verbatim>\<open>comm.recv\<close> for a message that never comes neither
  returns nor raises: it is \<open>Blocked\<close>.
\<close>

datatype 'a outcome = Returned 'a | Raised exn | Blocked

definition comm_send :: "payload \<Rightarrow> nat \<Rightarrow> nat \<Rightarrow> (('c, 'r) sys, unit) prog" where
  "comm_send data dest tag = (\<lambda>s. (Inr (), s\<lparr>comm_sent := comm_sent s @ [(dest, tag, data)]\<rparr>))"

definition send_to_worker :: "nat \<Rightarrow> string \<Rightarrow> (('c, 'r) sys, unit) prog" where
  "send_to_worker worker_index document_path =
     comm_send (Data (Assign document_path)) worker_index AWAITING_DATA_TAG"

definition exit_worker :: "nat \<Rightarrow> (('c, 'r) sys, unit) prog" where
  "exit_worker worker_index = comm_send (Data Exit) worker_index AWAITING_DATA_TAG"

text \<open>
  \<^verbatim>\<open>_start_worker\<close>. \<open>inbox\<close> holds, in order of arrival, the messages from rank 0
  with the assignment tag that the calls of \<^verbatim>\<open>comm.recv\<close> will return. The handler is
  \<^verbatim>\<open>except Exception\<close>, which catches every value of \<open>exn\<close>; the printed line is
  kept without the text of the exception.
\<close>

fun start_worker ::
  "(string \<Rightarrow> (('c, 'r) sys, unit) prog) \<Rightarrow> assignment list \<Rightarrow> ('c, 'r) sys
     \<Rightarrow> unit outcome \<times> ('c, 'r) sys" where
  "start_worker proc [] s = (Blocked, s)"
| "start_worker proc (Exit # inbox) s = (Returned (), s)"
| "start_worker proc (Assign document_path # inbox) s =
     (case try_except
             (pbind (proc document_path) (\<lambda>result. comm_send Result_None 0 RETURNING_DATA_TAG))
             (\<lambda>e. True)
             (\<lambda>e. pseq (emit (Print (''EXITED FOR '' @ document_path @ '' DUE TO:'')))
                        (comm_send Result_Empty_List 0 RETURNING_DATA_TAG)) s of
        (Inl e, s') \<Rightarrow> (Raised e, s')
      | (Inr _, s') \<Rightarrow> start_worker proc inbox s')"

text \<open>The \<^verbatim>\<open>for i in range(1, self.size)\<close> loop of the first pass of the primary.\<close>

fun fan_out ::
  "string \<Rightarrow> string list \<Rightarrow> nat list \<Rightarrow> nat \<Rightarrow> (('c, 'r) sys, nat) prog" where
  "fan_out document_dir filenames [] index = pret index"
| "fan_out document_dir filenames (i # workers) index =
     (if index < length filenames
      then pseq (send_to_worker i (path_join document_dir (filenames ! index)))
                (fan_out document_dir filenames workers (index + 1))
      else praise IndexError)"

text \<open>
  The \<^verbatim>\<open>while True\<close> loop of the primary. \<open>reports\<close> is the sequence of sources of the
  completion messages in the order \<^verbatim>\<open>comm.recv(source=ANY_SOURCE, tag=ANY_TAG)\<close> will
  return them; the received value is discarded by the code. With no worker
  (\<open>comm_size self \<le> 1\<close>) the first branch changes nothing and the loop spins: each pass
  takes one unit of fuel, and \<open>None\<close> is fuel running out. The loop returns its final
  \<open>index\<close> and \<open>n_finished\<close>.
\<close>

fun primary_loop ::
  "nat \<Rightarrow> ('c, 'r) extractor \<Rightarrow> string \<Rightarrow> string list \<Rightarrow> int \<Rightarrow> nat \<Rightarrow> nat \<Rightarrow> nat list
     \<Rightarrow> ('c, 'r) sys \<Rightarrow> ((nat \<times> nat) outcome \<times> ('c, 'r) sys) option" where
  "primary_loop 0 self document_dir filenames num_papers index n_finished reports s = None"
| "primary_loop (Suc fuel) self document_dir filenames num_papers index n_finished reports s =
     (if index = 0 then
        (case fan_out document_dir filenames [1 ..< comm_size self] index s of
           (Inl e, s') \<Rightarrow> Some (Raised e, s')
         | (Inr index', s') \<Rightarrow>
             primary_loop fuel self document_dir filenames num_papers index' n_finished reports s')
      else
        (case reports of
           [] \<Rightarrow> Some (Blocked, s)
         | finished_worker_index # reports' \<Rightarrow>
             let n_finished' = n_finished + 1;
                 s1 = (if use_wandb self
                       then s\<lparr>trace := trace s @ [WandbLog n_finished']\<rparr> else s)
             in if n_finished' = index \<and> int index \<ge> num_papers
                then Some (Returned (index, n_finished'), s1)
                else if int index < num_papers
                then (let s2 = s1\<lparr>trace := trace s1 @ [PrintIndexCap index num_papers]\<rparr>
                      in if index < length filenames
                         then (case send_to_worker finished_worker_index
                                      (path_join document_dir (filenames ! index)) s2 of
                                 (Inl e, s') \<Rightarrow> Some (Raised e, s')
                               | (Inr _, s') \<Rightarrow>
                                   primary_loop fuel self document_dir filenames num_papers
                                     (index + 1) n_finished' reports' s')
                         else Some (Raised IndexError, s2))
                else primary_loop fuel self document_dir filenames num_papers
                       index n_finished' reports' s1))"

definition of_result :: "(exn + 'a) \<times> 's \<Rightarrow> 'a outcome \<times> 's" where
  "of_result r = (case r of (Inl e, s) \<Rightarrow> (Raised e, s) | (Inr x, s) \<Rightarrow> (Returned x, s))"

text \<open>
  \<^verbatim>\<open>_extract_mpi\<close>: rank 0 runs the primary, every other rank the worker loop.
  \<open>reports\<close> is what the primary will receive and \<open>inbox\<close> what a worker will; the
  result of the primary is the pair of counters its loop ended with.
\<close>

definition extract_mpi ::
  "nat \<Rightarrow> ('c, 'r) world \<Rightarrow> ('c, 'r) extractor \<Rightarrow> (string \<Rightarrow> (('c, 'r) sys, unit) prog)
     \<Rightarrow> string \<Rightarrow> int option \<Rightarrow> nat list \<Rightarrow> assignment list \<Rightarrow> ('c, 'r) sys
     \<Rightarrow> ((nat \<times> nat) option outcome \<times> ('c, 'r) sys) option" where
  "extract_mpi fuel w self proc document_dir num_papers reports inbox s =
     (if is_main_thread self then
        (case list_filenames w document_dir s of
           (Inl e, s') \<Rightarrow> Some (Raised e, s')
         | (Inr filenames, s') \<Rightarrow>
             let num_papers' = (case num_papers of None \<Rightarrow> int (length filenames)
                                | Some n \<Rightarrow> n)
             in (case primary_loop fuel self document_dir filenames num_papers' 0 0 reports s' of
                   None \<Rightarrow> None
                 | Some (Returned counts, s'') \<Rightarrow>
                     Some (of_result
                       (pseq (pforeach [1 ..< comm_size self] exit_worker)
                          (pseq (emit (Print ''Extraction as a whole took:''))
                                (pret (Some counts))) s''))
                 | Some (Raised e, s'') \<Rightarrow> Some (Raised e, s'')
                 | Some (Blocked, s'') \<Rightarrow> Some (Blocked, s'')))
      else
        (case start_worker proc inbox s of
           (Returned _, s') \<Rightarrow> Some (Returned None, s')
         | (Raised e, s') \<Rightarrow> Some (Raised e, s')
         | (Blocked, s') \<Rightarrow> Some (Blocked, s')))"

text \<open>
  The assignment messages that pair workers with file names, one after the other:
  \<open>workers ! j\<close> is sent \<open>filenames ! j\<close>, as far as both lists go.
\<close>

definition assignments :: "string \<Rightarrow> nat list \<Rightarrow> string list \<Rightarrow> (nat \<times> nat \<times> payload) list" where
  "assignments document_dir workers filenames =
     map (\<lambda>(i, filename). (i, AWAITING_DATA_TAG, Data (Assign (path_join document_dir filename))))
         (zip workers filenames)"

text \<open>The events a run added to the log: those of \<open>s'\<close> beyond those of \<open>s\<close>.\<close>

definition new_events :: "('c, 'r) sys \<Rightarrow> ('c, 'r) sys \<Rightarrow> event list" where
  "new_events s s' = drop (length (trace s)) (trace s')"

text \<open>The events run-start setup can add to the log.\<close>

definition setup_events :: "event set" where
  "setup_events = range Mkdir \<union> range Print \<union> {WandbInit} \<union> range WandbSave"

text \<open>The events validation and extraction can add to the log.\<close>

definition extraction_events :: "event set" where
  "extraction_events =
     range IsValidDocument \<union> range SignalAlarm \<union> range ReadRecords \<union> range Print"

section \<open>A concrete corpus\<close>

text \<open>
  An extractor as the driver script builds it, without MPI: output root \<open>out\<close>, cache
  directory \<open>docs_cache\<close>, no validator and no filter. The world holds five documents
  besides a hidden file and a text dump; the loader accepts every path, the cache
  reports \<^verbatim>\<open>AttributeError\<close> and every document yields one record. The initial state
  has the output root and nothing in it.
\<close>

definition example_extractor :: "(string, string) extractor" where
  "example_extractor =
     \<lparr>models = [''YieldStrength''], save_root_dir = ''out'', cache_dir = Some ''docs_cache'',
      use_mpi = False, comm_rank = 0, comm_size = 1, use_wandb = False,
      wandb_save_files = [], document_args = [], filter_results = None,
      is_valid_document = None\<rparr>"

definition example_world :: "(string, string) world" where
  "example_world =
     \<lparr>w_from_file = (\<lambda>p. Inr \<lparr>doc_content = p, doc_models = [], doc_attrs = Map.empty\<rparr>),
      w_hydrate = (\<lambda>entries doc p. Inl AttributeError),
      w_records = (\<lambda>doc. Inr ([''record''], doc)),
      w_listdir = (\<lambda>d. Inr [''a.xml'', ''b.xml'', ''.hidden.xml'', ''a_records.txt'',
                             ''c.xml'', ''d.xml'', ''e.xml''])\<rparr>"

definition example_sys :: "(string, string) sys" where
  "example_sys =
     \<lparr>fs_dirs = {''out''}, fs_paths = {''out''}, stores = Map.empty,
      cache_entries = Map.empty, alarm = None, wandb_run = False, trace = [],
      comm_sent = []\<rparr>"

section \<open>Running the combinators\<close>

lemma pret_run: "pret x s = (Inr x, s)"
  by (simp add: pret_def)

lemma praise_run: "praise e s = (Inl e, s)"
  by (simp add: praise_def)

lemma pbind_run:
  "pbind m f s = (case m s of (Inl e, s') \<Rightarrow> (Inl e, s') | (Inr x, s') \<Rightarrow> f x s')"
  by (simp add: pbind_def)

lemma pseq_run:
  "pseq m n s = (case m s of (Inl e, s') \<Rightarrow> (Inl e, s') | (Inr x, s') \<Rightarrow> n s')"
  by (simp add: pseq_def pbind_def)

lemma try_except_run:
  "try_except m handles h s =
     (case m s of (Inl e, s') \<Rightarrow> if handles e then h e s' else (Inl e, s')
      | (Inr x, s') \<Rightarrow> (Inr x, s'))"
  by (simp add: try_except_def)

lemma plift_run: "plift r s = (r, s)"
  by (simp add: plift_def)

lemma emit_run: "emit ev s = (Inr (), s\<lparr>trace := trace s @ [ev]\<rparr>)"
  by (simp add: emit_def)

lemmas run_simps = pret_run praise_run pbind_run pseq_run try_except_run plift_run emit_run

lemma pforeach_emit:
  "pforeach xs (\<lambda>x. emit (f x)) s = (Inr (), s\<lparr>trace := trace s @ map f xs\<rparr>)"
  by (induction xs arbitrary: s) (simp_all add: run_simps)

section \<open>Run-start setup and the statements after the elapsed-time print\<close>

lemma will_start_extraction_frame:
  "stores (snd (will_start_extraction self s)) = stores s"
  "cache_entries (snd (will_start_extraction self s)) = cache_entries s"
  "alarm (snd (will_start_extraction self s)) = alarm s"
  "comm_sent (snd (will_start_extraction self s)) = comm_sent s"
  by (simp_all add: will_start_extraction_def run_simps os_path_isdir_def os_mkdir_def
        create_wandb_run_def pforeach_emit)

lemma will_start_extraction_trace:
  "\<exists>evs. trace (snd (will_start_extraction self s)) = trace s @ evs \<and> set evs \<subseteq> setup_events"
  by (auto simp add: will_start_extraction_def run_simps os_path_isdir_def os_mkdir_def
        create_wandb_run_def pforeach_emit setup_events_def)

lemma setup_and_dispatch_raises: "\<exists>e. fst (setup_and_dispatch self s) = Inl e"
  by (cases "will_start_extraction self s"; cases "fst (will_start_extraction self s)")
     (auto simp add: setup_and_dispatch_def run_simps)

lemma setup_and_dispatch_frame:
  "stores (snd (setup_and_dispatch self s)) = stores s"
  "cache_entries (snd (setup_and_dispatch self s)) = cache_entries s"
  "alarm (snd (setup_and_dispatch self s)) = alarm s"
  "comm_sent (snd (setup_and_dispatch self s)) = comm_sent s"
  using will_start_extraction_frame[of self s]
  by (cases "will_start_extraction self s"; cases "fst (will_start_extraction self s)";
      auto simp add: setup_and_dispatch_def run_simps)+

lemma setup_and_dispatch_trace:
  "\<exists>evs. trace (snd (setup_and_dispatch self s)) = trace s @ evs \<and> set evs \<subseteq> setup_events"
  using will_start_extraction_trace[of self s]
  by (cases "will_start_extraction self s"; cases "fst (will_start_extraction self s)")
     (auto simp add: setup_and_dispatch_def run_simps)

section \<open>The primary of the distributed strategy\<close>

lemma comm_send_run:
  "comm_send d dest tag s = (Inr (), s\<lparr>comm_sent := comm_sent s @ [(dest, tag, d)]\<rparr>)"
  by (simp add: comm_send_def)

lemma fan_out_run:
  "fan_out dir fs ws index s =
     (if ws = [] \<or> index + length ws \<le> length fs
      then Inr (index + length ws) else Inl IndexError,
      s\<lparr>comm_sent := comm_sent s @ assignments dir ws (drop index fs)\<rparr>)"
proof (induction ws arbitrary: index s)
  case Nil
  then show ?case by (simp add: run_simps assignments_def)
next
  case (Cons i ws)
  show ?case
  proof (cases "index < length fs")
    case True
    then have d: "drop index fs = fs ! index # drop (Suc index) fs"
      by (simp add: Cons_nth_drop_Suc)
    show ?thesis using True
      by (simp add: run_simps send_to_worker_def comm_send_run Cons.IH d assignments_def)
  next
    case False
    then show ?thesis by (simp add: run_simps assignments_def)
  qed
qed


lemma assignments_Cons:
  "assignments dir (i # ws) (f # fs)
     = (i, AWAITING_DATA_TAG, Data (Assign (path_join dir f))) # assignments dir ws fs"
  by (simp add: assignments_def)

lemma assignments_Nil [simp]: "assignments dir ws [] = []" "assignments dir [] fs = []"
  by (simp_all add: assignments_def)

lemma primary_loop_receiving:
  assumes "0 < index" "index \<le> length fs" "n_finished < index"
    and "length fs - n_finished \<le> length reports" "length fs - n_finished \<le> fuel"
  shows "\<exists>s'. primary_loop fuel self dir fs (int (length fs)) index n_finished reports s
            = Some (Returned (length fs, length fs), s')
          \<and> comm_sent s' = comm_sent s @ assignments dir reports (drop index fs)"
  using assms
proof (induction fuel arbitrary: index n_finished reports s)
  case 0
  then show ?case by simp
next
  case (Suc fuel)
  from Suc.prems obtain r rs where reports: "reports = r # rs"
    by (cases reports) auto
  let ?s1 = "if use_wandb self then s\<lparr>trace := trace s @ [WandbLog (Suc n_finished)]\<rparr> else s"
  have s1: "comm_sent ?s1 = comm_sent s" by simp
  consider (finished) "Suc n_finished = index" "index = length fs"
    | (more) "index < length fs"
    | (wait) "index = length fs" "Suc n_finished \<noteq> index"
    using Suc.prems by linarith
  then show ?case
  proof cases
    case finished
    then show ?thesis using Suc.prems reports
      by (simp add: Let_def)
  next
    case more
    let ?s2 = "?s1\<lparr>trace := trace ?s1 @ [PrintIndexCap index (int (length fs))]\<rparr>"
    let ?s3 = "?s2\<lparr>comm_sent := comm_sent ?s2 @ [(r, AWAITING_DATA_TAG, Data (Assign (path_join dir (fs ! index))))]\<rparr>"
    have pre: "0 < Suc index" "Suc index \<le> length fs" "Suc n_finished < Suc index"
      "length fs - Suc n_finished \<le> length rs" "length fs - Suc n_finished \<le> fuel"
      using Suc.prems more reports by auto
    from Suc.IH[OF pre, of ?s3] obtain s' where
      run: "primary_loop fuel self dir fs (int (length fs)) (Suc index) (Suc n_finished) rs ?s3
            = Some (Returned (length fs, length fs), s')"
      and sent: "comm_sent s' = comm_sent ?s3 @ assignments dir rs (drop (Suc index) fs)"
      by blast
    have d: "drop index fs = fs ! index # drop (Suc index) fs"
      using more by (simp add: Cons_nth_drop_Suc)
    have step: "primary_loop (Suc fuel) self dir fs (int (length fs)) index n_finished reports s
          = primary_loop fuel self dir fs (int (length fs)) (Suc index) (Suc n_finished) rs ?s3"
      using Suc.prems more reports
      by (simp add: Let_def send_to_worker_def comm_send_run)
    show ?thesis
      using run sent step by (simp add: reports d assignments_Cons)
  next
    case wait
    have pre: "0 < index" "index \<le> length fs" "Suc n_finished < index"
      "length fs - Suc n_finished \<le> length rs" "length fs - Suc n_finished \<le> fuel"
      using Suc.prems wait reports by auto
    from Suc.IH[OF pre, of ?s1] obtain s' where
      run: "primary_loop fuel self dir fs (int (length fs)) index (Suc n_finished) rs ?s1
            = Some (Returned (length fs, length fs), s')"
      and sent: "comm_sent s' = comm_sent ?s1 @ assignments dir rs (drop index fs)"
      by blast
    have step: "primary_loop (Suc fuel) self dir fs (int (length fs)) index n_finished reports s
          = primary_loop fuel self dir fs (int (length fs)) index (Suc n_finished) rs ?s1"
      using Suc.prems wait reports
      by (simp add: Let_def)
    show ?thesis
      using run sent step wait by (simp add: reports)
  qed
qed

lemma pforeach_exit_worker:
  "pforeach ws exit_worker s
     = (Inr (), s\<lparr>comm_sent := comm_sent s @ map (\<lambda>i. (i, AWAITING_DATA_TAG, Data Exit)) ws\<rparr>)"
  by (induction ws arbitrary: s) (simp_all add: run_simps exit_worker_def comm_send_run)

lemma list_filenames_state: "snd (list_filenames w document_dir s) = s"
  by (cases "w_listdir w document_dir") (simp_all add: list_filenames_def run_simps)

lemma assignments_payloads:
  "map (\<lambda>m. snd (snd m)) (assignments dir ws fs)
     = map (\<lambda>f. Data (Assign (path_join dir f))) (take (length ws) fs)"
proof (induction ws arbitrary: fs)
  case Nil
  then show ?case by simp
next
  case (Cons i ws)
  then show ?case by (cases fs) (simp_all add: assignments_Cons)
qed

text \<open>
  Claim C4. Distributed mode with \<open>K\<close> workers (\<open>comm_size self = K + 1\<close>, at least one
  worker), \<open>W\<close> enumerated units with \<open>K < W\<close>, and the cap equal to \<open>W\<close> (given as
  \<open>W\<close>, or left \<^verbatim>\<open>None\<close>): provided \<open>W\<close> completion reports arrive, the primary
  returns having received exactly \<open>W\<close> of them (its \<open>n_finished\<close>, equal to its
  \<open>index\<close>). What it sent is, in this order: one unit to each worker \<open>1, \<dots>, K\<close>, the
  first \<open>K\<close> units; then each further unit to the source of the report just received;
  then the exit signal to each worker. The payloads of the assignments are the
  enumerated units, each once and in order.
\<close>

theorem primary_assigns_each_unit_once:
  assumes main: "is_main_thread self"
    and workers: "comm_size self = Suc K" "0 < K" "K < length filenames"
    and listed: "fst (list_filenames w document_dir s) = Inr filenames"
    and cap: "num_papers = None \<or> num_papers = Some (int (length filenames))"
    and arrive: "length filenames \<le> length reports"
    and fuel: "length filenames < fuel"
  shows "\<exists>s'. extract_mpi fuel w self proc document_dir num_papers reports inbox s
             = Some (Returned (Some (length filenames, length filenames)), s')
           \<and> comm_sent s' = comm_sent s
                 @ assignments document_dir [1 ..< Suc K] filenames
                 @ assignments document_dir reports (drop K filenames)
                 @ map (\<lambda>i. (i, AWAITING_DATA_TAG, Data Exit)) [1 ..< Suc K]
           \<and> map (\<lambda>m. snd (snd m))
                 (assignments document_dir [1 ..< Suc K] filenames
                  @ assignments document_dir reports (drop K filenames))
               = map (\<lambda>f. Data (Assign (path_join document_dir f))) filenames"
proof -
  from listed list_filenames_state[of w document_dir s]
  have lf: "list_filenames w document_dir s = (Inr filenames, s)"
    by (cases "list_filenames w document_dir s") simp
  have capv: "(case num_papers of None \<Rightarrow> int (length filenames) | Some n \<Rightarrow> n)
                = int (length filenames)"
    using cap by auto
  obtain fuel' where fuel': "fuel = Suc fuel'" "length filenames \<le> fuel'"
    using fuel by (cases fuel) auto
  let ?s1 = "s\<lparr>comm_sent := comm_sent s @ assignments document_dir [1 ..< Suc K] (drop 0 filenames)\<rparr>"
  have fo: "fan_out document_dir filenames [1 ..< comm_size self] 0 s = (Inr K, ?s1)"
    using workers by (simp add: fan_out_run)
  have pre: "0 < K" "K \<le> length filenames" "0 < K"
    "length filenames - 0 \<le> length reports" "length filenames - 0 \<le> fuel'"
    using workers arrive fuel' by auto
  from primary_loop_receiving[OF pre, of self document_dir ?s1] obtain s2 where
    run: "primary_loop fuel' self document_dir filenames (int (length filenames)) K 0 reports ?s1
            = Some (Returned (length filenames, length filenames), s2)"
    and sent: "comm_sent s2 = comm_sent ?s1 @ assignments document_dir reports (drop K filenames)"
    by blast
  have loop: "primary_loop fuel self document_dir filenames (int (length filenames)) 0 0 reports s
            = Some (Returned (length filenames, length filenames), s2)"
    using fo run by (simp add: fuel')
  have p1: "map (\<lambda>m. snd (snd m)) (assignments document_dir [1 ..< Suc K] filenames)
        = map (\<lambda>f. Data (Assign (path_join document_dir f))) (take K filenames)"
    by (simp add: assignments_payloads)
  have p2: "map (\<lambda>m. snd (snd m)) (assignments document_dir reports (drop K filenames))
        = map (\<lambda>f. Data (Assign (path_join document_dir f))) (drop K filenames)"
    using arrive by (simp add: assignments_payloads)
  have "map (\<lambda>m. snd (snd m))
                 (assignments document_dir [1 ..< Suc K] filenames
                  @ assignments document_dir reports (drop K filenames))
        = map (\<lambda>f. Data (Assign (path_join document_dir f))) (take K filenames @ drop K filenames)"
    unfolding map_append p1 p2 by simp
  then have payloads: "map (\<lambda>m. snd (snd m))
                 (assignments document_dir [1 ..< Suc K] filenames
                  @ assignments document_dir reports (drop K filenames))
        = map (\<lambda>f. Data (Assign (path_join document_dir f))) filenames"
    by simp
  show ?thesis
    using main lf capv loop sent payloads workers
    by (simp add: extract_mpi_def Let_def of_result_def run_simps pforeach_exit_worker)
qed

theorem primary_assigns_each_unit_once_witness:
  "\<exists>s'. extract_mpi 6 example_world (example_extractor\<lparr>use_mpi := True, comm_size := 3\<rparr>)
            (extract_paper example_world (example_extractor\<lparr>use_mpi := True, comm_size := 3\<rparr>))
            ''docs'' None [1, 2, 2, 1, 2] [] example_sys
          = Some (Returned (Some (5, 5)), s')
        \<and> comm_sent s' =
            [(1, 111, Data (Assign ''docs/a.xml'')), (2, 111, Data (Assign ''docs/b.xml'')),
             (1, 111, Data (Assign ''docs/c.xml'')), (2, 111, Data (Assign ''docs/d.xml'')),
             (2, 111, Data (Assign ''docs/e.xml'')),
             (1, 111, Data Exit), (2, 111, Data Exit)]"
proof -
  let ?self = "example_extractor\<lparr>use_mpi := True, comm_size := 3\<rparr>"
  let ?fs = "[''a.xml'', ''b.xml'', ''c.xml'', ''d.xml'', ''e.xml'']"
  have main: "is_main_thread ?self" by code_simp
  have size: "comm_size ?self = Suc 2" by code_simp
  have listed: "fst (list_filenames example_world ''docs'' example_sys) = Inr ?fs" by code_simp
  have sent: "comm_sent example_sys
                 @ assignments ''docs'' [1 ..< Suc 2] ?fs
                 @ assignments ''docs'' [1, 2, 2, 1, 2] (drop 2 ?fs)
                 @ map (\<lambda>i. (i, AWAITING_DATA_TAG, Data Exit)) [1 ..< Suc 2]
       = [(1, 111, Data (Assign ''docs/a.xml'')), (2, 111, Data (Assign ''docs/b.xml'')),
             (1, 111, Data (Assign ''docs/c.xml'')), (2, 111, Data (Assign ''docs/d.xml'')),
             (2, 111, Data (Assign ''docs/e.xml'')),
             (1, 111, Data Exit), (2, 111, Data Exit)]"
    by code_simp
  from primary_assigns_each_unit_once[of ?self 2 ?fs example_world "''docs''" example_sys None
         "[1, 2, 2, 1, 2]" 6 "extract_paper example_world ?self" "[]", OF main size _ _ listed]
  obtain s' where
    "extract_mpi 6 example_world ?self (extract_paper example_world ?self)
            ''docs'' None [1, 2, 2, 1, 2] [] example_sys
          = Some (Returned (Some (length ?fs, length ?fs)), s')"
    "comm_sent s' = comm_sent example_sys
                 @ assignments ''docs'' [1 ..< Suc 2] ?fs
                 @ assignments ''docs'' [1, 2, 2, 1, 2] (drop 2 ?fs)
                 @ map (\<lambda>i. (i, AWAITING_DATA_TAG, Data Exit)) [1 ..< Suc 2]"
    by auto
  then show ?thesis
    unfolding sent by simp
qed

text \<open>
  Claim C10. The first pass of the primary reads \<^verbatim>\<open>filenames[index]\<close> for each of the
  \<open>comm_size self - 1\<close> workers, whatever \<open>num_papers\<close> is. With fewer units than
  workers the read goes out of range: the primary raises \<^verbatim>\<open>IndexError\<close>, having sent
  one assignment per enumerated unit. With at least as many units as workers the pass
  stays in range and leaves \<open>index\<close> at the number of workers.
\<close>

theorem fan_out_out_of_bounds:
  assumes main: "is_main_thread self"
    and listed: "fst (list_filenames w document_dir s) = Inr filenames"
  shows "(length filenames < comm_size self - 1 \<longrightarrow>
            (\<exists>s'. extract_mpi (Suc fuel) w self proc document_dir num_papers reports inbox s
                     = Some (Raised IndexError, s')
                 \<and> comm_sent s' = comm_sent s
                      @ assignments document_dir [1 ..< comm_size self] filenames))
       \<and> (comm_size self - 1 \<le> length filenames \<longrightarrow>
            fan_out document_dir filenames [1 ..< comm_size self] 0 s
              = (Inr (comm_size self - 1),
                 s\<lparr>comm_sent := comm_sent s
                      @ assignments document_dir [1 ..< comm_size self] filenames\<rparr>))"
proof -
  from listed list_filenames_state[of w document_dir s]
  have lf: "list_filenames w document_dir s = (Inr filenames, s)"
    by (cases "list_filenames w document_dir s") simp
  show ?thesis
    using main lf
    by (auto simp add: extract_mpi_def Let_def fan_out_run)
qed

theorem fan_out_out_of_bounds_witness:
  "length [''a.xml''] < comm_size (example_extractor\<lparr>use_mpi := True, comm_size := 4\<rparr>) - 1
   \<and> (\<exists>s'. extract_mpi (Suc 0) (example_world\<lparr>w_listdir := (\<lambda>d. Inr [''a.xml''])\<rparr>)
              (example_extractor\<lparr>use_mpi := True, comm_size := 4\<rparr>)
              (extract_paper example_world example_extractor) ''docs'' (Some 0) [] [] example_sys
            = Some (Raised IndexError, s')
          \<and> comm_sent s' = [(1, 111, Data (Assign ''docs/a.xml''))])"
proof -
  let ?self = "example_extractor\<lparr>use_mpi := True, comm_size := 4\<rparr>"
  let ?w = "example_world\<lparr>w_listdir := (\<lambda>d. Inr [''a.xml''])\<rparr>"
  have main: "is_main_thread ?self" by code_simp
  have listed: "fst (list_filenames ?w ''docs'' example_sys) = Inr [''a.xml'']" by code_simp
  have few: "length [''a.xml''] < comm_size ?self - 1" by code_simp
  have sent: "comm_sent example_sys @ assignments ''docs'' [1 ..< comm_size ?self] [''a.xml'']
                = [(1, 111, Data (Assign ''docs/a.xml''))]"
    by code_simp
  from fan_out_out_of_bounds[OF main listed, of 0 "extract_paper example_world example_extractor"
         "Some 0" "[]" "[]"] few
  show ?thesis unfolding sent by blast
qed

section \<open>The worker of the distributed strategy\<close>

lemma start_worker_not_raised: "fst (start_worker proc inbox s) \<noteq> Raised e"
proof (induction inbox arbitrary: s)
  case Nil
  then show ?case by simp
next
  case (Cons m inbox)
  show ?case
  proof (cases m)
    case (Assign p)
    obtain r s1 where run: "proc p s = (r, s1)" by (cases "proc p s")
    show ?thesis using Cons.IH run Assign
      by (cases r) (simp_all add: run_simps comm_send_run)
  next
    case Exit
    then show ?thesis by simp
  qed
qed

lemma start_worker_returns_iff: "(fst (start_worker proc inbox s) = Returned ()) = (Exit \<in> set inbox)"
proof (induction inbox arbitrary: s)
  case Nil
  then show ?case by simp
next
  case (Cons m inbox)
  show ?case
  proof (cases m)
    case (Assign p)
    obtain r s1 where run: "proc p s = (r, s1)" by (cases "proc p s")
    show ?thesis using Cons.IH run Assign
      by (cases r) (simp_all add: run_simps comm_send_run)
  next
    case Exit
    then show ?thesis by simp
  qed
qed

text \<open>
  Claim C5. Whatever method \<open>proc\<close> is bound to \<^verbatim>\<open>self.extract_paper\<close>: when it raises
  on an assignment, the worker prints the line, sends \<^verbatim>\<open>[]\<close> to rank 0 with the
  return tag and goes on with the rest of its inbox (first conjunct); when it returns,
  the worker sends its result and goes on (second). The loop never ends in an
  exception; it returns exactly when an exit message is among those it receives, and
  otherwise stays blocked in \<^verbatim>\<open>comm.recv\<close> once the inbox is used up.
\<close>

theorem worker_survives_exceptions:
  "(proc p s = (Inl e, s1) \<longrightarrow>
      start_worker proc (Assign p # inbox) s
        = start_worker proc inbox
            (s1\<lparr>trace := trace s1 @ [Print (''EXITED FOR '' @ p @ '' DUE TO:'')],
                comm_sent := comm_sent s1 @ [(0, RETURNING_DATA_TAG, Result_Empty_List)]\<rparr>))
   \<and> (proc p s = (Inr (), s1) \<longrightarrow>
      start_worker proc (Assign p # inbox) s
        = start_worker proc inbox
            (s1\<lparr>comm_sent := comm_sent s1 @ [(0, RETURNING_DATA_TAG, Result_None)]\<rparr>))
   \<and> fst (start_worker proc inbox s) \<noteq> Raised e'
   \<and> (fst (start_worker proc inbox s) = Returned ()) = (Exit \<in> set inbox)
   \<and> (fst (start_worker proc inbox s) = Blocked) = (Exit \<notin> set inbox)"
proof -
  have blocked: "(fst (start_worker proc inbox s) = Blocked) = (Exit \<notin> set inbox)"
    using start_worker_not_raised[of proc inbox s] start_worker_returns_iff[of proc inbox s]
    by (cases "fst (start_worker proc inbox s)") auto
  show ?thesis
    using start_worker_not_raised[of proc inbox s e'] start_worker_returns_iff[of proc inbox s] blocked
    by (simp add: run_simps comm_send_run)
qed


theorem worker_survives_exceptions_witness:
  "fst (extract_paper example_world (example_extractor\<lparr>use_mpi := True, comm_rank := 1, comm_size := 3\<rparr>)
          ''docs/a.xml'' example_sys) = Inl (NameError ''document_dir'')
   \<and> fst (start_worker
            (extract_paper example_world (example_extractor\<lparr>use_mpi := True, comm_rank := 1, comm_size := 3\<rparr>))
            [Assign ''docs/a.xml'', Exit] example_sys) = Returned ()
   \<and> comm_sent (snd (start_worker
            (extract_paper example_world (example_extractor\<lparr>use_mpi := True, comm_rank := 1, comm_size := 3\<rparr>))
            [Assign ''docs/a.xml'', Exit] example_sys)) = [(0, 222, Result_Empty_List)]"
proof -
  let ?proc = "extract_paper example_world (example_extractor\<lparr>use_mpi := True, comm_rank := 1, comm_size := 3\<rparr>)"
  let ?s1 = "snd (?proc ''docs/a.xml'' example_sys)"
  have raised: "fst (?proc ''docs/a.xml'' example_sys) = Inl (NameError ''document_dir'')"
    by code_simp
  then have run: "?proc ''docs/a.xml'' example_sys = (Inl (NameError ''document_dir''), ?s1)"
    by (simp add: prod_eq_iff)
  have sent: "comm_sent ?s1 = []" by code_simp
  have tag: "RETURNING_DATA_TAG = 222" by (simp add: RETURNING_DATA_TAG_def)
  from worker_survives_exceptions[of ?proc "''docs/a.xml''" example_sys "NameError ''document_dir''"
         ?s1 "[Exit]" IndexError] run
  have "start_worker ?proc [Assign ''docs/a.xml'', Exit] example_sys
        = start_worker ?proc [Exit]
            (?s1\<lparr>trace := trace ?s1 @ [Print (''EXITED FOR '' @ ''docs/a.xml'' @ '' DUE TO:'')],
                comm_sent := comm_sent ?s1 @ [(0, RETURNING_DATA_TAG, Result_Empty_List)]\<rparr>)"
    by blast
  then show ?thesis
    using raised sent tag by simp
qed

section \<open>The blocks of \<^verbatim>\<open>extract_paper\<close>, run on a state\<close>

lemma should_open_file_run:
  "should_open_file self p s =
     (if db_name_for_file self p \<in> fs_paths s \<or> db_name_for_file self p \<in> fs_dirs s
      then (Inr False, s\<lparr>trace := trace s @ [Print (''Skipping '' @ p @ '' as already exists'')]\<rparr>)
      else (Inr True, s))"
  by (simp add: should_open_file_def os_path_exists_def run_simps Let_def)

lemma from_file_run:
  "from_file w p s = (w_from_file w p, s\<lparr>trace := trace s @ [FromFile p]\<rparr>)"
  by (simp add: from_file_def)

lemma hydrate_block_run:
  "hydrate_block w self d p s =
     (if cache_dir self = None then (Inr (False, d), s)
      else if cacher self = None then (Inr (False, d), s)
      else (case w_hydrate w (cache_entries s) d p of
              Inr d' \<Rightarrow> (Inr (True, d'), s\<lparr>trace := trace s @ [HydrateDocument p None]\<rparr>)
            | Inl e \<Rightarrow> (if e = AttributeError then Inr (False, d) else Inl e,
                        s\<lparr>trace := trace s @ [HydrateDocument p (Some e)]\<rparr>)))"
  by (auto simp add: hydrate_block_def hydrate_document_def run_simps Let_def
      split: option.splits sum.splits)

lemma records_block_run:
  "records_block w self d p s =
     (case is_valid_document self of
        None \<Rightarrow>
          (case w_records w d of
             Inr (rs, d') \<Rightarrow> (Inr (rs, d'), s\<lparr>alarm := Some 300, trace := trace s @ [SignalAlarm 300, ReadRecords None]\<rparr>)
           | Inl e \<Rightarrow> (if e = TimeoutError then Inr ([], d) else Inl e,
                       s\<lparr>alarm := Some 300, trace := trace s @ [SignalAlarm 300, ReadRecords (Some e)]\<rparr>))
      | Some f \<Rightarrow>
          (case f d of
             Inl e \<Rightarrow> (Inl e, s\<lparr>trace := trace s @ [IsValidDocument (Inl e)]\<rparr>)
           | Inr False \<Rightarrow> (Inr ([], d), s\<lparr>trace := trace s @ [IsValidDocument (Inr False),
                                     Print (''CANCELLED DOCUMENT '' @ p)]\<rparr>)
           | Inr True \<Rightarrow>
              (case w_records w d of
                 Inr (rs, d') \<Rightarrow> (Inr (rs, d'), s\<lparr>alarm := Some 300,
                     trace := trace s @ [IsValidDocument (Inr True), SignalAlarm 300, ReadRecords None]\<rparr>)
               | Inl e \<Rightarrow> (if e = TimeoutError then Inr ([], d) else Inl e,
                     s\<lparr>alarm := Some 300,
                       trace := trace s @ [IsValidDocument (Inr True), SignalAlarm 300, ReadRecords (Some e)]\<rparr>))))"
  by (auto simp add: records_block_def should_process_document_def signal_alarm_def
        read_records_def run_simps Let_def split: option.splits sum.splits bool.splits)

lemma postprocess_records_run:
  "postprocess_records self rs p s =
     (case (case filter_results self of None \<Rightarrow> None
            | Some f \<Rightarrow> if rs = [] then None else Some (f rs)) of
        None \<Rightarrow> (Inr (), s\<lparr>stores := (stores s)(db_name_for_file self p \<mapsto> rs),
                        fs_paths := insert (db_name_for_file self p) (fs_paths s),
                        trace := trace s @ [DbWrite (db_name_for_file self p)]\<rparr>)
      | Some (Inl e) \<Rightarrow> (Inl e, s\<lparr>trace := trace s @ [FilterResults]\<rparr>)
      | Some (Inr rs') \<Rightarrow> (Inr (), s\<lparr>stores := (stores s)(db_name_for_file self p \<mapsto> rs'),
                        fs_paths := insert (db_name_for_file self p) (fs_paths s),
                        trace := trace s @ [FilterResults, DbWrite (db_name_for_file self p)]\<rparr>))"
  by (auto simp add: postprocess_records_def db_write_def run_simps Let_def
      split: option.splits sum.splits)

lemma cache_document_run:
  "cache_document self d p s =
     (case cacher self of None \<Rightarrow> (Inl AttributeError, s)
      | Some _ \<Rightarrow> (Inr (), s\<lparr>cache_entries := (cache_entries s)(p \<mapsto> d),
                              trace := trace s @ [CacheDocument p]\<rparr>))"
  by (simp add: cache_document_def run_simps split: option.splits)

lemma process_if_open_run:
  "process_if_open w self p s =
     (if db_name_for_file self p \<in> fs_paths s \<or> db_name_for_file self p \<in> fs_dirs s
      then (Inr (), s\<lparr>trace := trace s @ [Print (''Skipping '' @ p @ '' as already exists'')]\<rparr>)
      else (case w_from_file w p of
              Inl e \<Rightarrow> (Inl e, s\<lparr>trace := trace s @ [FromFile p]\<rparr>)
            | Inr doc0 \<Rightarrow>
               (case hydrate_block w self (configure_document self doc0) p
                       (s\<lparr>trace := trace s @ [FromFile p]\<rparr>) of
                  (Inl e, s2) \<Rightarrow> (Inl e, s2)
                | (Inr (did_use_cache, doc2), s2) \<Rightarrow>
                    (case records_block w self doc2 p s2 of
                       (Inl e, s3) \<Rightarrow> (Inl e, s3)
                     | (Inr (rs, doc), s3) \<Rightarrow>
                         (case postprocess_records self rs p s3 of
                            (Inl e, s4) \<Rightarrow> (Inl e, s4)
                          | (Inr u, s4) \<Rightarrow>
                              (if \<not> did_use_cache \<and> cache_dir self \<noteq> None
                               then cache_document self doc p s4 else (Inr (), s4)))))))"
  by (auto simp add: process_if_open_def run_simps should_open_file_run from_file_run Let_def
      split: sum.splits prod.splits)

lemma extract_paper_raises: "\<exists>e. fst (extract_paper w self p s) = Inl e"
proof (cases "process_if_open w self p s")
  case (Pair rb sb)
  show ?thesis
  proof (cases rb)
    case (Inl e)
    with Pair show ?thesis by (simp add: extract_paper_def pseq_run)
  next
    case (Inr u)
    obtain e where "fst (setup_and_dispatch self (sb\<lparr>trace := trace sb @ [Print (p @ '' took:'')]\<rparr>)) = Inl e"
      using setup_and_dispatch_raises by blast
    with Pair Inr show ?thesis
      by (cases "setup_and_dispatch self (sb\<lparr>trace := trace sb @ [Print (p @ '' took:'')]\<rparr>)")
         (simp add: extract_paper_def pseq_run emit_run)
  qed
qed

lemma extract_paper_frame:
  "stores (snd (extract_paper w self p s)) = stores (snd (process_if_open w self p s))"
  "cache_entries (snd (extract_paper w self p s)) = cache_entries (snd (process_if_open w self p s))"
  "alarm (snd (extract_paper w self p s)) = alarm (snd (process_if_open w self p s))"
  "comm_sent (snd (extract_paper w self p s)) = comm_sent (snd (process_if_open w self p s))"
  using setup_and_dispatch_frame[of self "(snd (process_if_open w self p s))\<lparr>trace := trace (snd (process_if_open w self p s)) @ [Print (p @ '' took:'')]\<rparr>"]
  by (cases "process_if_open w self p s"; cases "fst (process_if_open w self p s)";
      cases "setup_and_dispatch self ((snd (process_if_open w self p s))\<lparr>trace := trace (snd (process_if_open w self p s)) @ [Print (p @ '' took:'')]\<rparr>)";
      simp add: extract_paper_def pseq_run emit_run)+

lemma extract_paper_trace:
  "\<exists>evs. trace (snd (extract_paper w self p s)) = trace (snd (process_if_open w self p s)) @ evs
         \<and> set evs \<subseteq> setup_events"
  using setup_and_dispatch_trace[of self "(snd (process_if_open w self p s))\<lparr>trace := trace (snd (process_if_open w self p s)) @ [Print (p @ '' took:'')]\<rparr>"]
  by (cases "process_if_open w self p s"; cases "fst (process_if_open w self p s)";
      cases "setup_and_dispatch self ((snd (process_if_open w self p s))\<lparr>trace := trace (snd (process_if_open w self p s)) @ [Print (p @ '' took:'')]\<rparr>)")
     (auto simp add: extract_paper_def pseq_run emit_run setup_events_def)

lemma hydrate_block_frame:
  "stores (snd (hydrate_block w self d p s)) = stores s"
  "cache_entries (snd (hydrate_block w self d p s)) = cache_entries s"
  "fs_paths (snd (hydrate_block w self d p s)) = fs_paths s"
  "\<exists>hevs. trace (snd (hydrate_block w self d p s)) = trace s @ hevs
          \<and> set hevs \<subseteq> range (HydrateDocument p)"
  by (auto simp add: hydrate_block_run split: sum.splits)

section \<open>Validation\<close>

text \<open>
  Claim C8. Take a document that is not skipped (no store of its name exists), that the
  loader returns, and that comes out of the hydration block as \<open>doc\<close>, and a configured
  validator that answers \<^verbatim>\<open>False\<close> on it. Then \<^verbatim>\<open>extract_paper\<close> never arms the alarm
  and never reads \<^verbatim>\<open>doc.records\<close>, it prints the cancellation notice, and it writes
  the empty collection to the store of the unit. With no validator configured,
  \<^verbatim>\<open>should_process_document\<close> answers \<^verbatim>\<open>True\<close> for every document.
\<close>

theorem invalid_document_not_extracted:
  assumes fresh: "db_name_for_file self p \<notin> fs_paths s" "db_name_for_file self p \<notin> fs_dirs s"
    and loaded: "w_from_file w p = Inr doc0"
    and hydrated: "fst (hydrate_block w self (configure_document self doc0) p
                          (s\<lparr>trace := trace s @ [FromFile p]\<rparr>)) = Inr (did_use_cache, doc)"
    and invalid: "is_valid_document self = Some validator" "validator doc = Inr False"
  shows "ReadRecords r \<notin> set (new_events s (snd (extract_paper w self p s)))
       \<and> SignalAlarm n \<notin> set (new_events s (snd (extract_paper w self p s)))
       \<and> Print (''CANCELLED DOCUMENT '' @ p) \<in> set (new_events s (snd (extract_paper w self p s)))
       \<and> DbWrite (db_name_for_file self p) \<in> set (new_events s (snd (extract_paper w self p s)))
       \<and> stores (snd (extract_paper w self p s)) (db_name_for_file self p) = Some []
       \<and> should_process_document (self\<lparr>is_valid_document := None\<rparr>) d t = (Inr True, t)"
proof -
  let ?s1 = "s\<lparr>trace := trace s @ [FromFile p]\<rparr>"
  let ?h = "hydrate_block w self (configure_document self doc0) p ?s1"
  obtain s2 where h: "?h = (Inr (did_use_cache, doc), s2)"
    using hydrated by (cases ?h) simp
  from hydrate_block_frame[of w self "configure_document self doc0" p ?s1] h
  obtain hevs where s2: "stores s2 = stores s" "trace s2 = trace s @ FromFile p # hevs"
    "set hevs \<subseteq> range (HydrateDocument p)"
    by auto
  let ?s3 = "s2\<lparr>trace := trace s2 @ [IsValidDocument (Inr False), Print (''CANCELLED DOCUMENT '' @ p)]\<rparr>"
  let ?s4 = "?s3\<lparr>stores := (stores ?s3)(db_name_for_file self p \<mapsto> []),
                fs_paths := insert (db_name_for_file self p) (fs_paths ?s3),
                trace := trace ?s3 @ [DbWrite (db_name_for_file self p)]\<rparr>"
  have rb: "records_block w self doc p s2 = (Inr ([], doc), ?s3)"
    using invalid by (simp add: records_block_run)
  have pp: "postprocess_records self [] p ?s3 = (Inr (), ?s4)"
    by (simp add: postprocess_records_run split: option.splits)
  obtain pevs where sb: "stores (snd (process_if_open w self p s)) (db_name_for_file self p) = Some []"
    "trace (snd (process_if_open w self p s)) = trace ?s4 @ pevs" "set pevs \<subseteq> {CacheDocument p}"
  proof (cases "\<not> did_use_cache \<and> cache_dir self \<noteq> None")
    case True
    then have "process_if_open w self p s = cache_document self doc p ?s4"
      using fresh loaded h rb pp by (simp add: process_if_open_run)
    then show ?thesis
      using that[of "[]"] that[of "[CacheDocument p]"]
      by (cases "cacher self") (simp_all add: cache_document_run)
  next
    case False
    then have "process_if_open w self p s = (Inr (), ?s4)"
      using fresh loaded h rb pp by (auto simp add: process_if_open_run)
    then show ?thesis using that[of "[]"] by simp
  qed
  from extract_paper_trace[of w self p s] obtain evs where
    tr: "trace (snd (extract_paper w self p s)) = trace (snd (process_if_open w self p s)) @ evs"
    and evs: "set evs \<subseteq> setup_events"
    by blast
  have new: "new_events s (snd (extract_paper w self p s))
      = FromFile p # hevs @ [IsValidDocument (Inr False), Print (''CANCELLED DOCUMENT '' @ p),
          DbWrite (db_name_for_file self p)] @ pevs @ evs"
    by (simp add: new_events_def tr sb s2)
  have "should_process_document (self\<lparr>is_valid_document := None\<rparr>) d t = (Inr True, t)"
    by (simp add: should_process_document_def run_simps)
  then show ?thesis
    using new s2(3) sb(1,3) evs extract_paper_frame(1)[of w self p s]
    by (auto simp add: setup_events_def)
qed

theorem invalid_document_not_extracted_witness:
  "ReadRecords None \<notin> set (new_events example_sys (snd (extract_paper example_world
        (example_extractor\<lparr>is_valid_document := Some (\<lambda>d. Inr False)\<rparr>) ''docs/a.xml'' example_sys)))
   \<and> SignalAlarm 300 \<notin> set (new_events example_sys (snd (extract_paper example_world
        (example_extractor\<lparr>is_valid_document := Some (\<lambda>d. Inr False)\<rparr>) ''docs/a.xml'' example_sys)))
   \<and> Print ''CANCELLED DOCUMENT docs/a.xml'' \<in> set (new_events example_sys (snd (extract_paper example_world
        (example_extractor\<lparr>is_valid_document := Some (\<lambda>d. Inr False)\<rparr>) ''docs/a.xml'' example_sys)))
   \<and> DbWrite ''out/a'' \<in> set (new_events example_sys (snd (extract_paper example_world
        (example_extractor\<lparr>is_valid_document := Some (\<lambda>d. Inr False)\<rparr>) ''docs/a.xml'' example_sys)))
   \<and> stores (snd (extract_paper example_world
        (example_extractor\<lparr>is_valid_document := Some (\<lambda>d. Inr False)\<rparr>) ''docs/a.xml'' example_sys))
        ''out/a'' = Some []"
proof -
  let ?self = "example_extractor\<lparr>is_valid_document := Some (\<lambda>d. Inr False)\<rparr>"
  let ?doc0 = "\<lparr>doc_content = ''docs/a.xml'', doc_models = [], doc_attrs = Map.empty\<rparr>"
  have db: "db_name_for_file ?self ''docs/a.xml'' = ''out/a''" by code_simp
  have fresh: "db_name_for_file ?self ''docs/a.xml'' \<notin> fs_paths example_sys"
    "db_name_for_file ?self ''docs/a.xml'' \<notin> fs_dirs example_sys"
    unfolding db by (simp_all add: example_sys_def)
  have loaded: "w_from_file example_world ''docs/a.xml'' = Inr ?doc0"
    by (simp add: example_world_def)
  have hydrated: "fst (hydrate_block example_world ?self (configure_document ?self ?doc0) ''docs/a.xml''
                          (example_sys\<lparr>trace := trace example_sys @ [FromFile ''docs/a.xml'']\<rparr>))
                  = Inr (False, configure_document ?self ?doc0)"
    by (simp add: hydrate_block_run example_extractor_def example_world_def cacher_def)
  have invalid: "is_valid_document ?self = Some (\<lambda>d. Inr False)"
    "(\<lambda>d. Inr False) (configure_document ?self ?doc0) = Inr False"
    by simp_all
  from invalid_document_not_extracted[OF fresh loaded hydrated invalid, of None 300 ?doc0 example_sys]
  show ?thesis unfolding db by simp
qed

section \<open>The cache\<close>

lemma records_block_frame:
  "stores (snd (records_block w self d p s)) = stores s"
  "cache_entries (snd (records_block w self d p s)) = cache_entries s"
  "\<exists>rev revs. trace (snd (records_block w self d p s)) = trace s @ rev # revs
          \<and> rev \<in> range IsValidDocument \<union> {SignalAlarm 300}
          \<and> set (rev # revs) \<subseteq> extraction_events"
  by (auto simp add: records_block_run extraction_events_def
      split: option.splits sum.splits bool.splits prod.splits)

lemma persist_and_cache:
  fixes self :: "('c, 'r) extractor" and s3 :: "('c, 'r) sys" and p :: string
    and rs :: "'r list" and doc :: "'c document" and did_use_cache :: bool
  defines "db \<equiv> db_name_for_file self p"
  defines "X \<equiv> (case postprocess_records self rs p s3 of
                   (Inl e, s4) \<Rightarrow> (Inl e, s4)
                 | (Inr u, s4) \<Rightarrow>
                     (if \<not> did_use_cache \<and> cache_dir self \<noteq> None
                      then cache_document self doc p s4 else (Inr (), s4)))"
  shows "\<exists>pevs. trace (snd X) = trace s3 @ pevs
           \<and> set pevs \<subseteq> {FilterResults, DbWrite db, CacheDocument p}
           \<and> (did_use_cache \<longrightarrow> CacheDocument p \<notin> set pevs \<and> cache_entries (snd X) = cache_entries s3)
           \<and> (\<not> did_use_cache \<and> cacher self \<noteq> None \<longrightarrow>
                 (CacheDocument p \<in> set pevs) = (DbWrite db \<in> set pevs)
                 \<and> (if DbWrite db \<in> set pevs
                     then cache_entries (snd X) = (cache_entries s3)(p \<mapsto> doc)
                     else cache_entries (snd X) = cache_entries s3))"
  unfolding X_def db_def
  by (auto simp add: postprocess_records_run cache_document_run cacher_def
      split: option.splits sum.splits if_splits)


lemma process_if_open_extends:
  "\<exists>bevs. trace (snd (process_if_open w self p s)) = trace s @ bevs"
proof (cases "db_name_for_file self p \<in> fs_paths s \<or> db_name_for_file self p \<in> fs_dirs s")
  case True
  then show ?thesis by (simp add: process_if_open_run)
next
  case fresh: False
  show ?thesis
  proof (cases "w_from_file w p")
    case (Inl e)
    then show ?thesis using fresh by (simp add: process_if_open_run)
  next
    case (Inr doc0)
    let ?s1 = "s\<lparr>trace := trace s @ [FromFile p]\<rparr>"
    obtain rh s2 where h: "hydrate_block w self (configure_document self doc0) p ?s1 = (rh, s2)"
      by (cases "hydrate_block w self (configure_document self doc0) p ?s1")
    from hydrate_block_frame(4)[of w self "configure_document self doc0" p ?s1] h
    obtain hevs where s2: "trace s2 = trace s @ FromFile p # hevs" by auto
    show ?thesis
    proof (cases rh)
      case (Inl e)
      then show ?thesis using fresh Inr h s2 by (simp add: process_if_open_run)
    next
      case used: (Inr ud)
      obtain did_use_cache doc2 where ud: "ud = (did_use_cache, doc2)" by (cases ud)
      obtain rr s3 where r: "records_block w self doc2 p s2 = (rr, s3)"
        by (cases "records_block w self doc2 p s2")
      from records_block_frame(3)[of w self doc2 p s2] r
      obtain revs where s3: "trace s3 = trace s2 @ revs" by auto
      show ?thesis
      proof (cases rr)
        case (Inl e)
        then show ?thesis using fresh Inr h used ud r s2 s3 by (simp add: process_if_open_run)
      next
        case got: (Inr rd)
        obtain rs doc where rd: "rd = (rs, doc)" by (cases rd)
        from persist_and_cache[where self=self and rs=rs and p=p and ?s3.0=s3 and did_use_cache=did_use_cache and doc=doc]
        obtain pevs where "trace (snd (case postprocess_records self rs p s3 of
                   (Inl e, s4) \<Rightarrow> (Inl e, s4)
                 | (Inr u, s4) \<Rightarrow>
                     (if \<not> did_use_cache \<and> cache_dir self \<noteq> None
                      then cache_document self doc p s4 else (Inr (), s4)))) = trace s3 @ pevs"
          by blast
        then show ?thesis using fresh Inr h used ud r got rd s2 s3
          by (simp add: process_if_open_run)
      qed
    qed
  qed
qed

lemma extract_paper_new_events:
  "\<exists>evs. new_events s (snd (extract_paper w self p s))
            = new_events s (snd (process_if_open w self p s)) @ evs
         \<and> set evs \<subseteq> setup_events"
proof -
  from process_if_open_extends[of w self p s] obtain bevs where
    b: "trace (snd (process_if_open w self p s)) = trace s @ bevs" by blast
  from extract_paper_trace[of w self p s] obtain evs where
    e: "trace (snd (extract_paper w self p s)) = trace (snd (process_if_open w self p s)) @ evs"
       "set evs \<subseteq> setup_events" by blast
  show ?thesis using b e by (auto simp add: new_events_def)
qed

lemma after_hydration:
  fixes self :: "('c, 'r) extractor" and s :: "('c, 'r) sys"
  assumes fresh: "db_name_for_file self p \<notin> fs_paths s" "db_name_for_file self p \<notin> fs_dirs s"
    and loaded: "w_from_file w p = Inr doc0"
    and hydrated: "hydrate_block w self (configure_document self doc0) p
                     (s\<lparr>trace := trace s @ [FromFile p]\<rparr>)
                   = (Inr (did_use_cache, doc2), s\<lparr>trace := trace s @ [FromFile p, hev]\<rparr>)"
    and hev: "hev \<in> range (HydrateDocument p)"
  shows "(did_use_cache \<longrightarrow>
            CacheDocument p \<notin> set (new_events s (snd (process_if_open w self p s)))
            \<and> cache_entries (snd (process_if_open w self p s)) = cache_entries s)
       \<and> (\<not> did_use_cache \<and> cacher self \<noteq> None \<longrightarrow>
            (CacheDocument p \<in> set (new_events s (snd (process_if_open w self p s))))
              = (DbWrite (db_name_for_file self p) \<in> set (new_events s (snd (process_if_open w self p s))))
            \<and> (DbWrite (db_name_for_file self p) \<in> set (new_events s (snd (process_if_open w self p s)))
                 \<longrightarrow> (\<exists>doc. cache_entries (snd (process_if_open w self p s))
                              = (cache_entries s)(p \<mapsto> doc))))
       \<and> (\<exists>ev evs. new_events s (snd (process_if_open w self p s)) = FromFile p # hev # ev # evs
                \<and> ev \<in> range IsValidDocument \<union> {SignalAlarm 300})"
proof -
  let ?s2 = "s\<lparr>trace := trace s @ [FromFile p, hev]\<rparr>"
  obtain rr s3 where r: "records_block w self doc2 p ?s2 = (rr, s3)"
    by (cases "records_block w self doc2 p ?s2")
  from records_block_frame[of w self doc2 p ?s2] r
  obtain rev revs' where s3': "cache_entries s3 = cache_entries s"
    "trace s3 = trace s @ FromFile p # hev # rev # revs'"
    "rev \<in> range IsValidDocument \<union> {SignalAlarm 300}" "set (rev # revs') \<subseteq> extraction_events"
    by auto
  define revs where "revs = rev # revs'"
  have s3: "cache_entries s3 = cache_entries s" "trace s3 = trace s @ FromFile p # hev # revs"
    "revs = rev # revs'" "set revs \<subseteq> extraction_events"
    using s3' by (simp_all add: revs_def)
  show ?thesis
  proof (cases rr)
    case (Inl e)
    then have "process_if_open w self p s = (Inl e, s3)"
      using fresh loaded hydrated r by (simp add: process_if_open_run)
    then show ?thesis using s3 s3'(3) hev
      by (auto simp add: new_events_def extraction_events_def)
  next
    case got: (Inr rd)
    obtain rs doc where rd: "rd = (rs, doc)" by (cases rd)
    let ?X = "case postprocess_records self rs p s3 of
                   (Inl e, s4) \<Rightarrow> (Inl e, s4)
                 | (Inr u, s4) \<Rightarrow>
                     (if \<not> did_use_cache \<and> cache_dir self \<noteq> None
                      then cache_document self doc p s4 else (Inr (), s4))"
    have run: "process_if_open w self p s = ?X"
      using fresh loaded hydrated r got rd by (simp add: process_if_open_run)
    from persist_and_cache[where self=self and rs=rs and p=p and ?s3.0=s3
           and did_use_cache=did_use_cache and doc=doc]
    obtain pevs where pe: "trace (snd ?X) = trace s3 @ pevs"
      "set pevs \<subseteq> {FilterResults, DbWrite (db_name_for_file self p), CacheDocument p}"
      "did_use_cache \<longrightarrow> CacheDocument p \<notin> set pevs \<and> cache_entries (snd ?X) = cache_entries s3"
      "\<not> did_use_cache \<and> cacher self \<noteq> None \<longrightarrow>
                 (CacheDocument p \<in> set pevs) = (DbWrite (db_name_for_file self p) \<in> set pevs)
                 \<and> (if DbWrite (db_name_for_file self p) \<in> set pevs
                     then cache_entries (snd ?X) = (cache_entries s3)(p \<mapsto> doc)
                     else cache_entries (snd ?X) = cache_entries s3)"
      by blast
    have new: "new_events s (snd (process_if_open w self p s)) = FromFile p # hev # revs @ pevs"
      unfolding run by (simp add: new_events_def pe(1) s3(2))
    have no: "CacheDocument p \<notin> set revs" "DbWrite (db_name_for_file self p) \<notin> set revs"
      "CacheDocument p \<noteq> hev" "DbWrite (db_name_for_file self p) \<noteq> hev"
      using s3(4) hev by (auto simp add: extraction_events_def)
    show ?thesis
      unfolding new using pe(3,4) no s3(1,3) s3'(3) unfolding run
      by (auto split: if_splits)
  qed
qed


lemma cacher_configured: "cacher self = Some cdir \<Longrightarrow> cache_dir self \<noteq> None"
  by (auto simp add: cacher_def split: option.splits)



text \<open>
  Claim C6, as stated, has every failure of hydration caught and ignored. The handler
  is \<^verbatim>\<open>except AttributeError\<close>: a hydration that raises anything else, here
  \<^verbatim>\<open>FileNotFoundError\<close>, leaves \<^verbatim>\<open>extract_paper\<close> with that exception before anything is
  validated, extracted or stored, and ends a single-process run.
\<close>

theorem hydration_failure_propagates:
  "fst (extract_paper (example_world\<lparr>w_hydrate :=
            (\<lambda>entries doc p. Inl (OtherException ''FileNotFoundError''))\<rparr>)
          example_extractor ''docs/a.xml'' example_sys)
     = Inl (OtherException ''FileNotFoundError'')
   \<and> trace (snd (extract_paper (example_world\<lparr>w_hydrate :=
            (\<lambda>entries doc p. Inl (OtherException ''FileNotFoundError''))\<rparr>)
          example_extractor ''docs/a.xml'' example_sys))
     = [FromFile ''docs/a.xml'',
        HydrateDocument ''docs/a.xml'' (Some (OtherException ''FileNotFoundError''))]
   \<and> stores (snd (extract_paper (example_world\<lparr>w_hydrate :=
            (\<lambda>entries doc p. Inl (OtherException ''FileNotFoundError''))\<rparr>)
          example_extractor ''docs/a.xml'' example_sys)) ''out/a'' = None
   \<and> fst (extract_single_threaded (example_world\<lparr>w_hydrate :=
            (\<lambda>entries doc p. Inl (OtherException ''FileNotFoundError''))\<rparr>) example_extractor
          (extract_paper (example_world\<lparr>w_hydrate :=
            (\<lambda>entries doc p. Inl (OtherException ''FileNotFoundError''))\<rparr>) example_extractor)
          ''docs'' None example_sys)
     = Inl (OtherException ''FileNotFoundError'')"
  by code_simp

text \<open>
  Claim C6, amended. With a cacher configured, for a document that is not skipped and
  that the loader returns: when hydration raises \<^verbatim>\<open>AttributeError\<close>, the exception is
  caught and the call goes on, the next step being the validator or, with none
  configured, the alarm of the extraction; the document counts as a cold start, so its
  cache entry is written exactly when its store is. When hydration raises any other
  exception, \<^verbatim>\<open>extract_paper\<close> raises it at once, having done nothing but load the
  document and attempt the hydration.
\<close>

theorem hydration_attribute_error_is_swallowed:
  assumes fresh: "db_name_for_file self p \<notin> fs_paths s" "db_name_for_file self p \<notin> fs_dirs s"
    and loaded: "w_from_file w p = Inr doc0"
    and configured: "cacher self = Some cdir"
    and failed: "w_hydrate w (cache_entries s) (configure_document self doc0) p = Inl e"
  shows "(e = AttributeError \<longrightarrow>
            (\<exists>ev evs. new_events s (snd (extract_paper w self p s))
                        = FromFile p # HydrateDocument p (Some e) # ev # evs
                    \<and> ev \<in> range IsValidDocument \<union> {SignalAlarm 300})
            \<and> (CacheDocument p \<in> set (new_events s (snd (extract_paper w self p s))))
                = (DbWrite (db_name_for_file self p) \<in> set (new_events s (snd (extract_paper w self p s)))))
       \<and> (e \<noteq> AttributeError \<longrightarrow>
            extract_paper w self p s
              = (Inl e, s\<lparr>trace := trace s @ [FromFile p, HydrateDocument p (Some e)]\<rparr>))"
proof (intro conjI impI)
  note cd = cacher_configured[OF configured]
  from extract_paper_new_events[of s w self p] obtain tevs where
    tevs: "new_events s (snd (extract_paper w self p s))
            = new_events s (snd (process_if_open w self p s)) @ tevs"
         "set tevs \<subseteq> setup_events" by blast
  have no: "CacheDocument p \<notin> set tevs" "DbWrite (db_name_for_file self p) \<notin> set tevs"
    using tevs(2) by (auto simp add: setup_events_def)
  {
    assume e: "e = AttributeError"
    have h: "hydrate_block w self (configure_document self doc0) p (s\<lparr>trace := trace s @ [FromFile p]\<rparr>)
          = (Inr (False, configure_document self doc0),
             s\<lparr>trace := trace s @ [FromFile p, HydrateDocument p (Some e)]\<rparr>)"
      using failed e configured cd by (auto simp add: hydrate_block_run)
    note ah = after_hydration[OF fresh loaded h]
    show "\<exists>ev evs. new_events s (snd (extract_paper w self p s))
                        = FromFile p # HydrateDocument p (Some e) # ev # evs
                    \<and> ev \<in> range IsValidDocument \<union> {SignalAlarm 300}"
      using ah by (auto simp add: tevs(1))
    show "(CacheDocument p \<in> set (new_events s (snd (extract_paper w self p s))))
                = (DbWrite (db_name_for_file self p) \<in> set (new_events s (snd (extract_paper w self p s))))"
      using ah no configured by (simp add: tevs(1))
  }
  assume ne: "e \<noteq> AttributeError"
  have "process_if_open w self p s
          = (Inl e, s\<lparr>trace := trace s @ [FromFile p, HydrateDocument p (Some e)]\<rparr>)"
    using fresh loaded failed ne configured cd
    by (auto simp add: process_if_open_run hydrate_block_run)
  then show "extract_paper w self p s
              = (Inl e, s\<lparr>trace := trace s @ [FromFile p, HydrateDocument p (Some e)]\<rparr>)"
    by (simp add: extract_paper_def pseq_run)
qed

theorem hydration_attribute_error_is_swallowed_witness:
  "hd (new_events example_sys (snd (extract_paper example_world example_extractor
          ''docs/a.xml'' example_sys))) = FromFile ''docs/a.xml''
   \<and> CacheDocument ''docs/a.xml'' \<in> set (new_events example_sys (snd (extract_paper
          example_world example_extractor ''docs/a.xml'' example_sys)))
   \<and> extract_paper (example_world\<lparr>w_hydrate :=
            (\<lambda>entries doc p. Inl (OtherException ''FileNotFoundError''))\<rparr>)
          example_extractor ''docs/a.xml'' example_sys
       = (Inl (OtherException ''FileNotFoundError''),
          example_sys\<lparr>trace := trace example_sys @ [FromFile ''docs/a.xml'',
             HydrateDocument ''docs/a.xml'' (Some (OtherException ''FileNotFoundError''))]\<rparr>)"
proof -
  let ?missing = "example_world\<lparr>w_hydrate :=
            (\<lambda>entries doc p. Inl (OtherException ''FileNotFoundError''))\<rparr>"
  let ?doc0 = "\<lparr>doc_content = ''docs/a.xml'', doc_models = [], doc_attrs = Map.empty\<rparr>"
  have db: "db_name_for_file example_extractor ''docs/a.xml'' = ''out/a''" by code_simp
  have fresh: "db_name_for_file example_extractor ''docs/a.xml'' \<notin> fs_paths example_sys"
    "db_name_for_file example_extractor ''docs/a.xml'' \<notin> fs_dirs example_sys"
    unfolding db by (simp_all add: example_sys_def)
  have loaded: "w_from_file example_world ''docs/a.xml'' = Inr ?doc0"
    "w_from_file ?missing ''docs/a.xml'' = Inr ?doc0"
    by (simp_all add: example_world_def)
  have configured: "cacher example_extractor = Some ''docs_cache''"
    by (simp add: cacher_def example_extractor_def)
  have attr: "w_hydrate example_world (cache_entries example_sys)
                (configure_document example_extractor ?doc0) ''docs/a.xml'' = Inl AttributeError"
    by (simp add: example_world_def)
  have other: "w_hydrate ?missing (cache_entries example_sys)
                (configure_document example_extractor ?doc0) ''docs/a.xml''
                = Inl (OtherException ''FileNotFoundError'')"
    by simp
  have written: "DbWrite ''out/a'' \<in> set (new_events example_sys (snd (extract_paper
        example_world example_extractor ''docs/a.xml'' example_sys)))"
    by code_simp
  from hydration_attribute_error_is_swallowed[OF fresh loaded(1) configured attr] written
  have a: "hd (new_events example_sys (snd (extract_paper example_world example_extractor
          ''docs/a.xml'' example_sys))) = FromFile ''docs/a.xml''"
    "CacheDocument ''docs/a.xml'' \<in> set (new_events example_sys (snd (extract_paper
          example_world example_extractor ''docs/a.xml'' example_sys)))"
    unfolding db by auto
  from hydration_attribute_error_is_swallowed[OF fresh loaded(2) configured other]
  have b: "extract_paper ?missing example_extractor ''docs/a.xml'' example_sys
       = (Inl (OtherException ''FileNotFoundError''),
          example_sys\<lparr>trace := trace example_sys @ [FromFile ''docs/a.xml'',
             HydrateDocument ''docs/a.xml'' (Some (OtherException ''FileNotFoundError''))]\<rparr>)"
    by simp
  show ?thesis using a b by simp
qed

section \<open>The entry point\<close>

text \<open>
  Claim C1. The claim has the class expose one entry point
  \<^verbatim>\<open>extract(document_dir, num_papers=None)\<close> that performs run-start setup and then
  dispatches to one of the two strategies. In the source \<^verbatim>\<open>extract\<close> is a function
  local to \<^verbatim>\<open>extract_paper\<close>, so no extractor has an attribute of that name and the
  call \<^verbatim>\<open>extractor.extract(document_dir)\<close> of the driver script raises
  \<^verbatim>\<open>AttributeError\<close>; the setup and dispatch statements run instead at the end of
  every \<^verbatim>\<open>extract_paper\<close>, where they raise \<^verbatim>\<open>NameError\<close> before either strategy
  is entered. So for every extractor the lookup of \<^verbatim>\<open>extract\<close> fails while that of
  \<^verbatim>\<open>extract_paper\<close> succeeds, no call of \<^verbatim>\<open>extract_paper\<close> returns, and for the
  example extractor on the document \<open>docs/a.xml\<close> the exception is the
  \<^verbatim>\<open>NameError\<close>.
\<close>

theorem extract_entry_point_missing:
  "getattr self ''extract'' = Inl AttributeError
   \<and> getattr self ''extract_paper'' = Inr ()
   \<and> fst (extract_paper w self p s) \<noteq> Inr ()
   \<and> fst (extract_paper example_world example_extractor ''docs/a.xml'' example_sys)
       = Inl (NameError ''document_dir'')"
proof -
  have "getattr self ''extract'' = Inl AttributeError"
    by (simp add: getattr_def instance_attributes_def DatabaseExtractor_methods_def)
  moreover have "getattr self ''extract_paper'' = Inr ()"
    by (simp add: getattr_def DatabaseExtractor_methods_def)
  moreover have "fst (extract_paper w self p s) \<noteq> Inr ()"
    using extract_paper_raises[of w self p s] by auto
  moreover have "fst (extract_paper example_world example_extractor ''docs/a.xml'' example_sys)
       = Inl (NameError ''document_dir'')"
    by code_simp
  ultimately show ?thesis by blast
qed

section \<open>The skip gate\<close>

text \<open>
  Claim C2. \<^verbatim>\<open>should_open_file\<close> answers "do not open" exactly when the store path
  derived from the unit's base name exists, whatever the store holds (first conjunct,
  for every extractor, path and state). The claim goes on: in that case processing
  returns at once as a no-op. On the source it does not return: with the store
  \<open>out/a\<close> present, \<^verbatim>\<open>extract_paper\<close> on \<open>docs/a.xml\<close> loads, extracts and writes
  nothing (the log gains the skip notice and the elapsed-time line only, and the store
  keeps its content), then runs the setup and dispatch statements and raises
  \<^verbatim>\<open>NameError\<close>.
\<close>

theorem skip_gate_then_name_error:
  "fst (should_open_file self p s)
     = Inr (\<not> (db_name_for_file self p \<in> fs_paths s \<or> db_name_for_file self p \<in> fs_dirs s))
   \<and> db_name_for_file example_extractor ''docs/a.xml'' = ''out/a''
   \<and> fst (extract_paper example_world example_extractor ''docs/a.xml''
            (example_sys\<lparr>fs_paths := {''out'', ''out/a''}, stores := [''out/a'' \<mapsto> [''old'']]\<rparr>))
       = Inl (NameError ''document_dir'')
   \<and> trace (snd (extract_paper example_world example_extractor ''docs/a.xml''
            (example_sys\<lparr>fs_paths := {''out'', ''out/a''}, stores := [''out/a'' \<mapsto> [''old'']]\<rparr>)))
       = [Print ''Skipping docs/a.xml as already exists'', Print ''docs/a.xml took:'']
   \<and> stores (snd (extract_paper example_world example_extractor ''docs/a.xml''
            (example_sys\<lparr>fs_paths := {''out'', ''out/a''}, stores := [''out/a'' \<mapsto> [''old'']]\<rparr>)))
          ''out/a'' = Some [''old'']"
proof -
  have "fst (should_open_file self p s)
     = Inr (\<not> (db_name_for_file self p \<in> fs_paths s \<or> db_name_for_file self p \<in> fs_dirs s))"
    by (simp add: should_open_file_def os_path_exists_def run_simps Let_def)
  moreover have "db_name_for_file example_extractor ''docs/a.xml'' = ''out/a''"
    by code_simp
  moreover have "fst (extract_paper example_world example_extractor ''docs/a.xml''
            (example_sys\<lparr>fs_paths := {''out'', ''out/a''}, stores := [''out/a'' \<mapsto> [''old'']]\<rparr>))
       = Inl (NameError ''document_dir'')"
    by code_simp
  moreover have "trace (snd (extract_paper example_world example_extractor ''docs/a.xml''
            (example_sys\<lparr>fs_paths := {''out'', ''out/a''}, stores := [''out/a'' \<mapsto> [''old'']]\<rparr>)))
       = [Print ''Skipping docs/a.xml as already exists'', Print ''docs/a.xml took:'']"
    by code_simp
  moreover have "stores (snd (extract_paper example_world example_extractor ''docs/a.xml''
            (example_sys\<lparr>fs_paths := {''out'', ''out/a''}, stores := [''out/a'' \<mapsto> [''old'']]\<rparr>)))
          ''out/a'' = Some [''old'']"
    by code_simp
  ultimately show ?thesis by blast
qed

section \<open>The timeout\<close>

text \<open>
  Claim C3. A valid, non-skipped document has its records read under
  \<^verbatim>\<open>signal.alarm(300)\<close>, and a \<^verbatim>\<open>TimeoutError\<close> from the read leaves an empty
  collection that is still written to the store. The claim ends: the run proceeds to
  the next unit without raising. In the single-process strategy it does not: with every
  extraction timing out, a run over the five documents of the example corpus arms the
  alarm, writes the empty store \<open>out/a\<close> for the first document and then ends in
  \<^verbatim>\<open>NameError\<close>, raised by the setup and dispatch statements at the end of
  \<^verbatim>\<open>extract_paper\<close>; the second document is never opened.
\<close>

theorem timeout_then_run_ends:
  "fst (extract_single_threaded (example_world\<lparr>w_records := (\<lambda>doc. Inl TimeoutError)\<rparr>)
          example_extractor
          (extract_paper (example_world\<lparr>w_records := (\<lambda>doc. Inl TimeoutError)\<rparr>) example_extractor)
          ''docs'' None example_sys)
     = Inl (NameError ''document_dir'')
   \<and> trace (snd (extract_single_threaded (example_world\<lparr>w_records := (\<lambda>doc. Inl TimeoutError)\<rparr>)
          example_extractor
          (extract_paper (example_world\<lparr>w_records := (\<lambda>doc. Inl TimeoutError)\<rparr>) example_extractor)
          ''docs'' None example_sys))
     = [PrintPaper 1 5 ''a.xml'', FromFile ''docs/a.xml'',
        HydrateDocument ''docs/a.xml'' (Some AttributeError),
        SignalAlarm 300, ReadRecords (Some TimeoutError), DbWrite ''out/a'',
        CacheDocument ''docs/a.xml'', Print ''docs/a.xml took:'']
   \<and> stores (snd (extract_single_threaded (example_world\<lparr>w_records := (\<lambda>doc. Inl TimeoutError)\<rparr>)
          example_extractor
          (extract_paper (example_world\<lparr>w_records := (\<lambda>doc. Inl TimeoutError)\<rparr>) example_extractor)
          ''docs'' None example_sys)) ''out/a'' = Some []
   \<and> stores (snd (extract_single_threaded (example_world\<lparr>w_records := (\<lambda>doc. Inl TimeoutError)\<rparr>)
          example_extractor
          (extract_paper (example_world\<lparr>w_records := (\<lambda>doc. Inl TimeoutError)\<rparr>) example_extractor)
          ''docs'' None example_sys)) ''out/b'' = None"
  by code_simp

section \<open>The cap of the single-process strategy\<close>

text \<open>
  Claim C7. The loop of \<^verbatim>\<open>_extract_single_threaded\<close> breaks when
  \<^verbatim>\<open>index > num_papers\<close>, so with \<^verbatim>\<open>num_papers = 1\<close> and five enumerated units the
  claim has two units processed. The loop does hand two units to a processor that
  returns (second and third conjunct, with a processor that only records its call). On the source
  the run processes one: the first call of \<^verbatim>\<open>extract_paper\<close> handles \<open>docs/a.xml\<close> and
  then raises \<^verbatim>\<open>NameError\<close> from the setup and dispatch statements, which ends the
  loop before the second unit.
\<close>

theorem cap_one_of_five_processes_one:
  "fst (list_filenames example_world ''docs'' example_sys)
     = Inr [''a.xml'', ''b.xml'', ''c.xml'', ''d.xml'', ''e.xml'']
   \<and> fst (extract_single_threaded example_world example_extractor
          (\<lambda>document_path. emit (FromFile document_path)) ''docs'' (Some 1) example_sys)
     = Inr ()
   \<and> trace (snd (extract_single_threaded example_world example_extractor
          (\<lambda>document_path. emit (FromFile document_path)) ''docs'' (Some 1) example_sys))
     = [PrintPaper 1 5 ''a.xml'', FromFile ''docs/a.xml'',
        PrintPaper 2 5 ''b.xml'', FromFile ''docs/b.xml'',
        Print ''Extraction as a whole took:'']
   \<and> fst (extract_single_threaded example_world example_extractor
          (extract_paper example_world example_extractor) ''docs'' (Some 1) example_sys)
     = Inl (NameError ''document_dir'')
   \<and> trace (snd (extract_single_threaded example_world example_extractor
          (extract_paper example_world example_extractor) ''docs'' (Some 1) example_sys))
     = [PrintPaper 1 5 ''a.xml'', FromFile ''docs/a.xml'',
        HydrateDocument ''docs/a.xml'' (Some AttributeError),
        SignalAlarm 300, ReadRecords None, DbWrite ''out/a'',
        CacheDocument ''docs/a.xml'', Print ''docs/a.xml took:'']"
  by code_simp

end
